theory Spec2Isabelle
  imports Complex_Main
begin

section \<open>Emotion classification (src/components/waifu-tracker.tsx)\<close>

text \<open>
  \<^verbatim>\<open>export type Emotion = "happy" | "excited" | "neutral" | "worried" | "sad" | "angry"\<close>
  JavaScript numbers are modelled as \<^typ>\<open>real\<close>; the claims speak of real-valued
  inputs, so NaN and the infinities are outside the model.
\<close>

datatype Emotion = Happy | Excited | Neutral | Worried | Sad | Angry

text \<open>
  \<^verbatim>\<open>
  function getEmotionFromChange(change: number): Emotion {
    if (change > 20) return "excited"
    if (change > 5) return "happy"
    if (change > -5) return "neutral"
    if (change > -15) return "worried"
    if (change > -30) return "sad"
    return "angry"
  }
  \<close>
\<close>

definition getEmotionFromChange :: "real \<Rightarrow> Emotion" where
  "getEmotionFromChange change =
     (if change > 20 then Excited
      else if change > 5 then Happy
      else if change > -5 then Neutral
      else if change > -15 then Worried
      else if change > -30 then Sad
      else Angry)"

text \<open>
  \<^verbatim>\<open>
  function getEmotionFromShortMove(diffRatio: number): Emotion | null {
    if (diffRatio >= 0.01) return "excited"
    if (diffRatio >= 0.003) return "happy"
    if (diffRatio <= -0.01) return "angry"
    if (diffRatio <= -0.003) return "sad"
    return null
  }
  \<close>
\<close>

definition getEmotionFromShortMove :: "real \<Rightarrow> Emotion option" where
  "getEmotionFromShortMove diffRatio =
     (if diffRatio \<ge> 1 / 100 then Some Excited
      else if diffRatio \<ge> 3 / 1000 then Some Happy
      else if diffRatio \<le> - (1 / 100) then Some Angry
      else if diffRatio \<le> - (3 / 1000) then Some Sad
      else None)"

section \<open>JavaScript values and upstream HTTP calls\<close>

text \<open>
  A field that the code reads through \<^verbatim>\<open>parseFloat(x) || 0\<close> is modelled by the result
  of \<^verbatim>\<open>parseFloat\<close>: \<open>None\<close> when it is NaN (missing or unparsable field),
  \<open>Some r\<close> otherwise. \<^verbatim>\<open>NaN || 0\<close> and \<^verbatim>\<open>0 || 0\<close> are both 0.
\<close>

definition num_or_zero :: "real option \<Rightarrow> real" where
  "num_or_zero x = (case x of None \<Rightarrow> 0 | Some r \<Rightarrow> r)"

text \<open>Truthiness of an optional string: \<^verbatim>\<open>null\<close>, \<^verbatim>\<open>undefined\<close> and \<^verbatim>\<open>""\<close> are falsy.\<close>

definition truthy :: "string option \<Rightarrow> bool" where
  "truthy x = (case x of None \<Rightarrow> False | Some s \<Rightarrow> s \<noteq> [])"

text \<open>\<^verbatim>\<open>x || null\<close> on an optional string.\<close>

definition or_null :: "string option \<Rightarrow> string option" where
  "or_null x = (if truthy x then x else None)"

text \<open>\<^verbatim>\<open>a || b\<close> where both come out of \<open>or_null\<close> (so a falsy value is \<open>None\<close>).\<close>

definition or_else :: "string option \<Rightarrow> string option \<Rightarrow> string option" where
  "or_else a b = (if truthy a then a else b)"

text \<open>
  An awaited \<^verbatim>\<open>fetch\<close> either rejects (network failure, timeout) or resolves to a
  response with a status; \<^verbatim>\<open>response.json()\<close> either rejects (malformed JSON) or gives
  the parsed body. The thrown values carry their message.
\<close>

datatype 'a json_result = JsonThrows string | JsonValue 'a

datatype 'a upstream = FetchThrows string | Response nat "'a json_result"

definition ok :: "nat \<Rightarrow> bool" where
  "ok status = (200 \<le> status \<and> status \<le> 299)"

text \<open>
  A DexScreener pair, with the fields the routes read. \<open>liquidity_usd\<close> is
  \<^verbatim>\<open>liquidity?.usd\<close>; \<open>priceWaifuge_h24\<close> and \<open>priceChange_h24\<close> are the two spellings
  the routes use (\<^verbatim>\<open>priceWaifuge?.h24\<close> in the price and stream routes,
  \<^verbatim>\<open>priceChange?.h24\<close> in the chart route).
\<close>

record Pair =
  liquidity_usd :: "real option"
  priceUsd :: "real option"
  priceWaifuge_h24 :: "real option"
  priceChange_h24 :: "real option"
  volume_h24 :: "real option"
  baseToken_symbol :: "string option"
  baseToken_name :: "string option"
  fdv :: "real option"
  pair_marketCap :: "real option"
  pairAddress :: "string option"

text \<open>
  \<^verbatim>\<open>data.pairs.sort((a, b) => (b.liquidity?.usd || 0) - (a.liquidity?.usd || 0))\<close>:
  \<^verbatim>\<open>Array.prototype.sort\<close> is stable, and so is \<^const>\<open>sort_key\<close> (insertion sort).
  The routes take \<^verbatim>\<open>sortedPairs[0]\<close> only after testing that the list is not empty, so
  the case of an empty sorted list in the definitions below is never reached.
\<close>

definition sortPairs :: "Pair list \<Rightarrow> Pair list" where
  "sortPairs pairs = sort_key (\<lambda>p. - num_or_zero (liquidity_usd p)) pairs"

text \<open>The body of a DexScreener response is \<^verbatim>\<open>data?.pairs\<close>.\<close>

type_synonym DexBody = "Pair list option"

text \<open>The body of a Jupiter response is the entry \<^verbatim>\<open>data.data[tokenAddress]\<close>, if any.\<close>

record JupEntry =
  jup_price :: "real option"
  jup_priceWaifuge24h :: "real option"
  jup_volume24h :: "real option"
  jup_symbol :: "string option"
  jup_name :: "string option"

type_synonym JupBody = "JupEntry option"

text \<open>
  Birdeye price response: \<^verbatim>\<open>data?.success\<close>, and \<^verbatim>\<open>data.data?.value\<close> /
  \<^verbatim>\<open>data?.data?.price\<close>, each \<open>None\<close> when \<^verbatim>\<open>undefined\<close> and otherwise the result
  of \<^verbatim>\<open>parseFloat\<close> on it.
\<close>

record BirdeyeBody =
  be_success :: bool
  be_value :: "real option option"
  be_price :: "real option option"

record OverviewData =
  ov_priceWaifuge24h :: "real option"
  ov_volume24h :: "real option"

record OverviewBody =
  ov_success :: bool
  ov_data :: "OverviewData option"

text \<open>
  Everything outside the process that one request reads: the three providers' answers
  and the environment variable \<^verbatim>\<open>BIRDEYE_API_KEY\<close>.
\<close>

record Upstreams =
  dexscreener :: "DexBody upstream"
  jupiter :: "JupBody upstream"
  BIRDEYE_API_KEY :: "string option"
  birdeye :: "BirdeyeBody upstream"
  birdeye_overview :: "OverviewBody upstream"

datatype Call = DexScreener | Jupiter | Birdeye | BirdeyeOverview

text \<open>
  \<^verbatim>\<open>NextResponse.json(body, { status })\<close>; the status defaults to 200. It builds a
  \<^verbatim>\<open>Response\<close> with a body, and the constructor throws when the status is outside
  200-599 or is a null-body status (204, 205, 304; 101 and 103 are below 200).
  An error message is a literal, a template literal ending in a status, or the message
  of that constructor's error, whose text belongs to the runtime.
\<close>

datatype ErrorMessage = Msg string | MsgWithStatus string nat | ResponseInitError nat

definition response_init_throws :: "nat \<Rightarrow> bool" where
  "response_init_throws st = (st < 200 \<or> 599 < st \<or> st = 204 \<or> st = 205 \<or> st = 304)"

datatype 'b NextResponse = Json 'b nat | ErrorJson ErrorMessage nat

fun status_of :: "'b NextResponse \<Rightarrow> nat" where
  "status_of (Json b st) = st"
| "status_of (ErrorJson m st) = st"

section \<open>The price endpoint (src/app/api/token-price/route.ts)\<close>

record PriceBody =
  pb_success :: bool
  pb_source :: "string option"
  pb_price :: real
  pb_change24h :: real
  pb_volume24h :: real
  pb_tokenSymbol :: "string option"
  pb_tokenName :: "string option"

text \<open>
  Method 1 (lines 22-65). The result is the response to return, if the method returns,
  together with \<^verbatim>\<open>dexTokenSymbol\<close> and \<^verbatim>\<open>dexTokenName\<close> as the block leaves them. Every
  exception inside the block is swallowed by its \<^verbatim>\<open>catch\<close>.
\<close>

definition price_method1 ::
  "DexBody upstream \<Rightarrow> PriceBody NextResponse option \<times> string option \<times> string option" where
  "price_method1 u =
     (case u of
        FetchThrows e \<Rightarrow> (None, None, None)
      | Response st b \<Rightarrow>
          if ok st then
            (case b of
               JsonThrows e \<Rightarrow> (None, None, None)
             | JsonValue data_pairs \<Rightarrow>
                 (case data_pairs of
                    None \<Rightarrow> (None, None, None)
                  | Some pairs \<Rightarrow>
                      if length pairs > 0 then
                        (case sortPairs pairs of
                           [] \<Rightarrow> (None, None, None)
                         | bestPair # rest \<Rightarrow>
                             let price = num_or_zero (priceUsd bestPair);
                                 change24h = num_or_zero (priceWaifuge_h24 bestPair);
                                 volume24h = num_or_zero (volume_h24 bestPair);
                                 tokenSymbol = or_null (baseToken_symbol bestPair);
                                 tokenName = or_null (baseToken_name bestPair)
                             in (if price > 0 then
                                   Some (Json \<lparr>pb_success = True, pb_source = Some ''dexscreener'',
                                     pb_price = price, pb_change24h = change24h,
                                     pb_volume24h = volume24h, pb_tokenSymbol = tokenSymbol,
                                     pb_tokenName = tokenName\<rparr> 200)
                                 else None, tokenSymbol, tokenName))
                      else (None, None, None)))
          else (None, None, None))"

text \<open>Method 2 (lines 67-102).\<close>

definition price_method2 ::
  "JupBody upstream \<Rightarrow> string option \<Rightarrow> string option \<Rightarrow> PriceBody NextResponse option" where
  "price_method2 u dexTokenSymbol dexTokenName =
     (case u of
        FetchThrows e \<Rightarrow> None
      | Response st b \<Rightarrow>
          if ok st then
            (case b of
               JsonThrows e \<Rightarrow> None
             | JsonValue entry \<Rightarrow>
                 (case entry of
                    None \<Rightarrow> None
                  | Some priceData \<Rightarrow>
                      let price = num_or_zero (jup_price priceData);
                          change24h = num_or_zero (jup_priceWaifuge24h priceData);
                          volume24h = num_or_zero (jup_volume24h priceData);
                          tokenSymbol = or_null (jup_symbol priceData);
                          tokenName = or_null (jup_name priceData)
                      in if price > 0 then
                           Some (Json \<lparr>pb_success = True, pb_source = Some ''jupiter'',
                             pb_price = price, pb_change24h = change24h,
                             pb_volume24h = volume24h,
                             pb_tokenSymbol = or_else dexTokenSymbol tokenSymbol,
                             pb_tokenName = or_else dexTokenName tokenName\<rparr> 200)
                         else None))
          else None)"

text \<open>
  The price Birdeye reports (lines 121-126), and the optional 24h statistics
  (lines 130-149), which start at 0 and stay there unless the overview call succeeds.
\<close>

definition birdeye_price :: "BirdeyeBody \<Rightarrow> real" where
  "birdeye_price d =
     (if be_success d \<and> be_value d \<noteq> None then num_or_zero (the (be_value d))
      else if be_price d \<noteq> None then num_or_zero (the (be_price d))
      else 0)"

definition overview_stats :: "OverviewBody upstream \<Rightarrow> real \<Rightarrow> real \<Rightarrow> real \<times> real" where
  "overview_stats u change24h volume24h =
     (case u of
        FetchThrows e \<Rightarrow> (change24h, volume24h)
      | Response st b \<Rightarrow>
          if ok st then
            (case b of
               JsonThrows e \<Rightarrow> (change24h, volume24h)
             | JsonValue overviewData \<Rightarrow>
                 (case ov_data overviewData of
                    None \<Rightarrow> (change24h, volume24h)
                  | Some d \<Rightarrow>
                      if ov_success overviewData
                      then (num_or_zero (ov_priceWaifuge24h d), num_or_zero (ov_volume24h d))
                      else (change24h, volume24h)))
          else (change24h, volume24h))"

text \<open>Method 3 (lines 104-165), entered only when the API key is truthy.\<close>

definition price_method3 ::
  "BirdeyeBody upstream \<Rightarrow> OverviewBody upstream \<Rightarrow> string option \<Rightarrow> string option \<Rightarrow>
   PriceBody NextResponse option \<times> Call list" where
  "price_method3 u ov dexTokenSymbol dexTokenName =
     (case u of
        FetchThrows e \<Rightarrow> (None, [Birdeye])
      | Response st b \<Rightarrow>
          if ok st then
            (case b of
               JsonThrows e \<Rightarrow> (None, [Birdeye])
             | JsonValue d \<Rightarrow>
                 let price = birdeye_price d
                 in if price > 0 then
                      (let (change24h, volume24h) = overview_stats ov 0 0
                       in (Some (Json \<lparr>pb_success = True, pb_source = Some ''birdeye'',
                             pb_price = price, pb_change24h = change24h,
                             pb_volume24h = volume24h, pb_tokenSymbol = dexTokenSymbol,
                             pb_tokenName = dexTokenName\<rparr> 200), [Birdeye, BirdeyeOverview]))
                    else (None, [Birdeye]))
          else (None, [Birdeye]))"

text \<open>
  The handler. It returns the response and, for the claims about ordering, the upstream
  calls it made, in order. The outer \<^verbatim>\<open>catch\<close> (lines 176-185) answers 200 with
  \<^verbatim>\<open>success: false\<close> as well; every fallible call sits in an inner \<^verbatim>\<open>try\<close>, so nothing
  in this model reaches it.
\<close>

definition no_price_found :: "string option \<Rightarrow> string option \<Rightarrow> PriceBody NextResponse" where
  "no_price_found dexTokenSymbol dexTokenName =
     Json \<lparr>pb_success = False, pb_source = None, pb_price = 0, pb_change24h = 0,
       pb_volume24h = 0, pb_tokenSymbol = dexTokenSymbol, pb_tokenName = dexTokenName\<rparr> 200"

definition GET_token_price ::
  "string option \<Rightarrow> Upstreams \<Rightarrow> PriceBody NextResponse \<times> Call list" where
  "GET_token_price tokenAddress env =
     (if \<not> truthy tokenAddress then (ErrorJson (Msg ''Token address is required'') 400, [])
      else
        (case price_method1 (dexscreener env) of
           (Some response, dexTokenSymbol, dexTokenName) \<Rightarrow> (response, [DexScreener])
         | (None, dexTokenSymbol, dexTokenName) \<Rightarrow>
             (case price_method2 (jupiter env) dexTokenSymbol dexTokenName of
                Some response \<Rightarrow> (response, [DexScreener, Jupiter])
              | None \<Rightarrow>
                  if truthy (BIRDEYE_API_KEY env) then
                    (case price_method3 (birdeye env) (birdeye_overview env)
                            dexTokenSymbol dexTokenName of
                       (Some response, calls) \<Rightarrow> (response, [DexScreener, Jupiter] @ calls)
                     | (None, calls) \<Rightarrow>
                         (no_price_found dexTokenSymbol dexTokenName,
                          [DexScreener, Jupiter] @ calls))
                  else (no_price_found dexTokenSymbol dexTokenName, [DexScreener, Jupiter]))))"

section \<open>The chart-data endpoint and its cache (src/unnamed/part_000)\<close>

text \<open>The value the endpoint builds, caches and returns (lines 100-107).\<close>

record ChartResult =
  cr_success :: bool
  cr_price :: real
  cr_priceChange24h :: real
  cr_volume24h :: real
  cr_pairAddress :: "string option"
  cr_pairData :: Pair

text \<open>
  \<^verbatim>\<open>const cache = new Map<string, { data: any; timestamp: number }>()\<close>. A JavaScript
  \<^verbatim>\<open>Map\<close> iterates in insertion order, and the eviction sorts its entries, so the cache
  is an association list in insertion order. Timestamps are \<^verbatim>\<open>Date.now()\<close> readings,
  integers in milliseconds.
\<close>

record CacheEntry =
  data :: ChartResult
  timestamp :: int

type_synonym Cache = "(string \<times> CacheEntry) list"

text \<open>
  \<^verbatim>\<open>Map.prototype.set\<close>: an existing key keeps its position and gets the new value, a
  new key goes to the end. \<^verbatim>\<open>Map.prototype.get\<close> is \<^const>\<open>map_of\<close>.
\<close>

fun map_set :: "'k \<Rightarrow> 'v \<Rightarrow> ('k \<times> 'v) list \<Rightarrow> ('k \<times> 'v) list" where
  "map_set k v [] = [(k, v)]"
| "map_set k v ((k', v') # rest) =
     (if k' = k then (k, v) # rest else (k', v') # map_set k v rest)"

definition CACHE_TTL :: int where
  "CACHE_TTL = 5000"

text \<open>
  \<^verbatim>\<open>
  function getCachedData(tokenAddress: string) {
    const cached = cache.get(tokenAddress)
    if (cached && Date.now() - cached.timestamp < CACHE_TTL) {
      return cached.data
    }
    return null
  }
  \<close>
\<close>

definition getCachedData :: "string \<Rightarrow> int \<Rightarrow> Cache \<Rightarrow> ChartResult option" where
  "getCachedData tokenAddress now cache =
     (case map_of cache tokenAddress of
        Some cached \<Rightarrow> if now - timestamp cached < CACHE_TTL then Some (data cached) else None
      | None \<Rightarrow> None)"

text \<open>
  \<^verbatim>\<open>
  function setCachedData(tokenAddress: string, data: any) {
    cache.set(tokenAddress, { data, timestamp: Date.now() })
    // Clean up old cache entries (keep last 100)
    if (cache.size > 100) {
      const entries = Array.from(cache.entries())
      entries.sort((a, b) => b[1].timestamp - a[1].timestamp)
      cache.clear()
      entries.slice(0, 100).forEach(([key, value]) => cache.set(key, value))
    }
  }
  \<close>
  The sort is stable and descending in the timestamp.
\<close>

definition sort_newest_first :: "Cache \<Rightarrow> Cache" where
  "sort_newest_first entries = sort_key (\<lambda>e. - timestamp (snd e)) entries"

definition setCachedData :: "string \<Rightarrow> ChartResult \<Rightarrow> int \<Rightarrow> Cache \<Rightarrow> Cache" where
  "setCachedData tokenAddress d now cache =
     (let cache1 = map_set tokenAddress \<lparr>data = d, timestamp = now\<rparr> cache
      in if length cache1 > 100 then
           foldl (\<lambda>c (key, v). map_set key v c) [] (take 100 (sort_newest_first cache1))
         else cache1)"

text \<open>
  The response body: the cached or fresh result, and the two fields the stale paths add
  with \<^verbatim>\<open>{ ...staleCache.data, cached: true, warning: ... }\<close>.
\<close>

record ChartBody =
  cb_data :: ChartResult
  cb_cached :: "bool option"
  cb_warning :: "string option"

text \<open>The \<^verbatim>\<open>catch\<close> block (lines 113-129); \<open>message\<close> is \<^verbatim>\<open>error.message\<close>.\<close>

definition chart_on_error ::
  "ErrorMessage \<Rightarrow> string \<Rightarrow> Cache \<Rightarrow> ChartBody NextResponse" where
  "chart_on_error message tokenAddress cache =
     (case map_of cache tokenAddress of
        Some staleCache \<Rightarrow>
          Json \<lparr>cb_data = data staleCache, cb_cached = Some True,
            cb_warning = Some ''Error fetching fresh data, returning cached data''\<rparr> 200
      | None \<Rightarrow> ErrorJson message 500)"

text \<open>
  The handler (lines 35-130). \<open>now\<close> is the clock when the cache is consulted,
  \<open>now'\<close> the clock when a fresh result is stored. It returns the response and the
  cache as the request leaves it. The answer to a non-ok upstream status other than 429
  is built inside the \<^verbatim>\<open>try\<close> with the upstream's status; where the \<^verbatim>\<open>Response\<close>
  constructor throws on that status (an upstream 304, say), the \<^verbatim>\<open>catch\<close> block answers.
\<close>

definition GET_chart_data ::
  "string option \<Rightarrow> int \<Rightarrow> DexBody upstream \<Rightarrow> int \<Rightarrow> Cache \<Rightarrow>
   ChartBody NextResponse \<times> Cache" where
  "GET_chart_data tokenAddress now u now' cache =
     (case tokenAddress of
        None \<Rightarrow> (ErrorJson (Msg ''Token address is required'') 400, cache)
      | Some a \<Rightarrow>
          if a = [] then (ErrorJson (Msg ''Token address is required'') 400, cache)
          else
            (case getCachedData a now cache of
               Some cached \<Rightarrow>
                 (Json \<lparr>cb_data = cached, cb_cached = None, cb_warning = None\<rparr> 200, cache)
             | None \<Rightarrow>
                 (case u of
                    FetchThrows e \<Rightarrow> (chart_on_error (Msg e) a cache, cache)
                  | Response st b \<Rightarrow>
                      if \<not> ok st then
                        (if st = 429 then
                           (case map_of cache a of
                              Some staleCache \<Rightarrow>
                                (Json \<lparr>cb_data = data staleCache, cb_cached = Some True,
                                   cb_warning = Some ''Rate limited, returning cached data''\<rparr> 200,
                                 cache)
                            | None \<Rightarrow>
                                (ErrorJson (Msg ''Too many requests. Please wait a moment.'') 429,
                                 cache))
                         else if response_init_throws st then
                           (chart_on_error (ResponseInitError st) a cache, cache)
                         else (ErrorJson (MsgWithStatus ''DexScreener API error: '' st) st, cache))
                      else
                        (case b of
                           JsonThrows e \<Rightarrow> (chart_on_error (Msg e) a cache, cache)
                         | JsonValue data_pairs \<Rightarrow>
                             (case data_pairs of
                                None \<Rightarrow> (ErrorJson (Msg ''No pairs found'') 404, cache)
                              | Some pairs \<Rightarrow>
                                  if length pairs = 0 then
                                    (ErrorJson (Msg ''No pairs found'') 404, cache)
                                  else
                                  (case sortPairs pairs of
                                     [] \<Rightarrow> (ErrorJson (Msg ''No pairs found'') 404, cache)
                                   | bestPair # rest \<Rightarrow>
                                       let currentPrice = num_or_zero (priceUsd bestPair);
                                           priceChange24h = num_or_zero (priceChange_h24 bestPair);
                                           volume24h = num_or_zero (volume_h24 bestPair)
                                       in if currentPrice = 0 then
                                            (ErrorJson (Msg ''Invalid price data'') 400, cache)
                                          else
                                            (let result = \<lparr>cr_success = True,
                                                   cr_price = currentPrice,
                                                   cr_priceChange24h = priceChange24h,
                                                   cr_volume24h = volume24h,
                                                   cr_pairAddress = pairAddress bestPair,
                                                   cr_pairData = bestPair\<rparr>
                                             in (Json \<lparr>cb_data = result, cb_cached = None,
                                                   cb_warning = None\<rparr> 200,
                                                 setCachedData a result now' cache))))))))"

section \<open>The streaming endpoint (src/unnamed/part_001)\<close>

text \<open>
  \<^verbatim>\<open>fetchTokenData\<close> (lines 30-154) keeps four variables, \<^verbatim>\<open>price\<close>, \<^verbatim>\<open>change24h\<close>,
  \<^verbatim>\<open>volume24h\<close> and \<^verbatim>\<open>supply\<close>, across its three methods; each method assigns some of
  them and may return \<^verbatim>\<open>{ price, change24h, volume24h, supply, decimals: 9 }\<close>.
\<close>

record FetchVars =
  v_price :: real
  v_change24h :: real
  v_volume24h :: real
  v_supply :: real

record FetchedData =
  fd_price :: real
  fd_change24h :: real
  fd_volume24h :: real
  fd_supply :: real
  fd_decimals :: nat

definition fetched :: "FetchVars \<Rightarrow> FetchedData" where
  "fetched v = \<lparr>fd_price = v_price v, fd_change24h = v_change24h v,
     fd_volume24h = v_volume24h v, fd_supply = v_supply v, fd_decimals = 9\<rparr>"

text \<open>A number is truthy when it is present and not 0.\<close>

definition truthy_num :: "real option \<Rightarrow> bool" where
  "truthy_num x = (case x of None \<Rightarrow> False | Some r \<Rightarrow> r \<noteq> 0)"

text \<open>
  Method 1 (lines 36-72): the variables after the block, and whether it returned.
\<close>

definition stream_method1 :: "DexBody upstream \<Rightarrow> FetchVars \<Rightarrow> bool \<times> FetchVars" where
  "stream_method1 u v =
     (case u of
        FetchThrows e \<Rightarrow> (False, v)
      | Response st b \<Rightarrow>
          if ok st then
            (case b of
               JsonThrows e \<Rightarrow> (False, v)
             | JsonValue data_pairs \<Rightarrow>
                 (case data_pairs of
                    None \<Rightarrow> (False, v)
                  | Some pairs \<Rightarrow>
                      if length pairs > 0 then
                      (case sortPairs pairs of
                         [] \<Rightarrow> (False, v)
                       | bestPair # rest \<Rightarrow>
                           let price = num_or_zero (priceUsd bestPair);
                               v1 = v\<lparr>v_price := price,
                                      v_change24h := num_or_zero (priceWaifuge_h24 bestPair),
                                      v_volume24h := num_or_zero (volume_h24 bestPair)\<rparr>;
                               v2 = (if truthy_num (fdv bestPair) \<and> price > 0
                                     then v1\<lparr>v_supply := the (fdv bestPair) / price\<rparr>
                                     else if truthy_num (pair_marketCap bestPair) \<and> price > 0
                                     then v1\<lparr>v_supply := the (pair_marketCap bestPair) / price\<rparr>
                                     else v1)
                           in (price > 0, v2))
                      else (False, v)))
          else (False, v))"

text \<open>Method 2 (lines 74-99).\<close>

definition stream_method2 :: "JupBody upstream \<Rightarrow> FetchVars \<Rightarrow> bool \<times> FetchVars" where
  "stream_method2 u v =
     (case u of
        FetchThrows e \<Rightarrow> (False, v)
      | Response st b \<Rightarrow>
          if ok st then
            (case b of
               JsonThrows e \<Rightarrow> (False, v)
             | JsonValue entry \<Rightarrow>
                 (case entry of
                    None \<Rightarrow> (False, v)
                  | Some priceData \<Rightarrow>
                      let price = num_or_zero (jup_price priceData);
                          v1 = v\<lparr>v_price := price,
                                 v_change24h := num_or_zero (jup_priceWaifuge24h priceData),
                                 v_volume24h := num_or_zero (jup_volume24h priceData)\<rparr>
                      in (price > 0, v1)))
          else (False, v))"

text \<open>
  Method 3 (lines 101-150), entered only when the API key is truthy. The price is
  assigned only when one of the two fields is defined; the 24h statistics keep their
  earlier values unless the overview call succeeds.
\<close>

definition stream_method3 ::
  "BirdeyeBody upstream \<Rightarrow> OverviewBody upstream \<Rightarrow> FetchVars \<Rightarrow> bool \<times> FetchVars" where
  "stream_method3 u ov v =
     (case u of
        FetchThrows e \<Rightarrow> (False, v)
      | Response st b \<Rightarrow>
          if ok st then
            (case b of
               JsonThrows e \<Rightarrow> (False, v)
             | JsonValue d \<Rightarrow>
                 let v1 = (if be_success d \<and> be_value d \<noteq> None
                           then v\<lparr>v_price := num_or_zero (the (be_value d))\<rparr>
                           else if be_price d \<noteq> None
                           then v\<lparr>v_price := num_or_zero (the (be_price d))\<rparr>
                           else v)
                 in if v_price v1 > 0 then
                      (let (change24h, volume24h) =
                             overview_stats ov (v_change24h v1) (v_volume24h v1)
                       in (True, v1\<lparr>v_change24h := change24h, v_volume24h := volume24h\<rparr>))
                    else (False, v1))
          else (False, v))"

text \<open>
  The whole function: \<open>Inr\<close> the data, or \<open>Inl\<close> the message of the error it throws.
\<close>

definition fetchTokenData :: "Upstreams \<Rightarrow> string + FetchedData" where
  "fetchTokenData env =
     (case stream_method1 (dexscreener env)
             \<lparr>v_price = 0, v_change24h = 0, v_volume24h = 0, v_supply = 0\<rparr> of
        (True, v1) \<Rightarrow> Inr (fetched v1)
      | (False, v1) \<Rightarrow>
          (case stream_method2 (jupiter env) v1 of
             (True, v2) \<Rightarrow> Inr (fetched v2)
           | (False, v2) \<Rightarrow>
               if truthy (BIRDEYE_API_KEY env) then
                 (case stream_method3 (birdeye env) (birdeye_overview env) v2 of
                    (True, v3) \<Rightarrow> Inr (fetched v3)
                  | (False, v3) \<Rightarrow> Inl ''No price data available from any source'')
               else Inl ''No price data available from any source''))"

text \<open>The events of the stream (lines 12-25), one constructor per \<^verbatim>\<open>type\<close> the route sends.\<close>

record UpdateData =
  u_supply :: real
  u_decimals :: nat
  u_price :: real
  u_marketCap :: real
  u_change24h :: real
  u_volume24h :: real
  u_timestamp :: int

datatype TokenUpdateEvent =
    Connected string string
  | Update string UpdateData
  | ErrorEvent string string
  | Keepalive string

record LastData =
  l_supply :: real
  l_price :: real
  l_decimals :: nat

text \<open>
  The state of one connection: \<^verbatim>\<open>isClosed\<close>, \<^verbatim>\<open>lastData\<close>, and the events enqueued on
  the stream so far, oldest first.
\<close>

record Session =
  isClosed :: bool
  lastData :: LastData
  sent :: "TokenUpdateEvent list"

text \<open>
  \<^verbatim>\<open>sendEvent\<close> (lines 177-185); an exception of \<^verbatim>\<open>controller.enqueue\<close> is swallowed
  there, and the model takes the enqueue of an open stream to succeed.
\<close>

definition sendEvent :: "TokenUpdateEvent \<Rightarrow> Session \<Rightarrow> Session" where
  "sendEvent event s = (if isClosed s then s else s\<lparr>sent := sent s @ [event]\<rparr>)"

text \<open>
  \<^verbatim>\<open>pollTokenData\<close> (lines 194-249). \<^verbatim>\<open>parseFloat(x) || 0\<close> of a number \<open>x\<close> is \<open>x\<close>;
  \<^verbatim>\<open>tokenData.supply ? parseFloat(tokenData.supply) : 0\<close> and
  \<^verbatim>\<open>tokenData.decimals || 9\<close> replace a 0 by 0 and by 9. \<open>now\<close> is the
  \<^verbatim>\<open>Date.now()\<close> of the event's timestamp.
\<close>

definition pollTokenData :: "string \<Rightarrow> Upstreams \<Rightarrow> int \<Rightarrow> Session \<Rightarrow> Session" where
  "pollTokenData tokenAddress env now s =
     (if isClosed s then s
      else
        (case fetchTokenData env of
           Inl errorMessage \<Rightarrow> sendEvent (ErrorEvent tokenAddress errorMessage) s
         | Inr tokenData \<Rightarrow>
             let currentPrice = fd_price tokenData;
                 currentSupply = (if fd_supply tokenData \<noteq> 0 then fd_supply tokenData else 0);
                 decimals = (if fd_decimals tokenData \<noteq> 0 then fd_decimals tokenData else 9);
                 change24h = fd_change24h tokenData;
                 volume24h = fd_volume24h tokenData;
                 marketCap = (if currentPrice > 0 \<and> currentSupply > 0
                              then currentPrice * currentSupply else 0);
                 hasWaifuges = (currentPrice \<noteq> l_price (lastData s) \<or>
                                currentSupply \<noteq> l_supply (lastData s) \<or>
                                decimals \<noteq> l_decimals (lastData s))
             in if hasWaifuges \<or> l_price (lastData s) = 0 then
                  sendEvent
                    (Update tokenAddress
                       \<lparr>u_supply = currentSupply, u_decimals = decimals, u_price = currentPrice,
                        u_marketCap = marketCap, u_change24h = change24h,
                        u_volume24h = volume24h, u_timestamp = now\<rparr>)
                    (s\<lparr>lastData := \<lparr>l_supply = currentSupply, l_price = currentPrice,
                                    l_decimals = decimals\<rparr>\<rparr>)
                else s))"

text \<open>
  The start of a connection (lines 169-192): the initial state and the \<open>connected\<close>
  event. After it the route polls once and then on every tick of its 5 s interval;
  \<open>polls\<close> runs the polls of a list of ticks, each with what the providers answer at
  that tick and the clock.
\<close>

definition session_start :: "string \<Rightarrow> Session" where
  "session_start tokenAddress =
     sendEvent (Connected tokenAddress ''Connected to Jupiter token stream'')
       \<lparr>isClosed = False, lastData = \<lparr>l_supply = 0, l_price = 0, l_decimals = 9\<rparr>, sent = []\<rparr>"

definition polls :: "string \<Rightarrow> (Upstreams \<times> int) list \<Rightarrow> Session \<Rightarrow> Session" where
  "polls tokenAddress ticks s =
     foldl (\<lambda>s (env, now). pollTokenData tokenAddress env now s) s ticks"

text \<open>The data of the last \<open>update\<close> event among the events sent, if there is one.\<close>

fun last_update :: "TokenUpdateEvent list \<Rightarrow> UpdateData option" where
  "last_update [] = None"
| "last_update (e # es) =
     (case last_update es of
        Some u \<Rightarrow> Some u
      | None \<Rightarrow> (case e of Update t u \<Rightarrow> Some u | _ \<Rightarrow> None))"

text \<open>
  The invariant of an open session: \<^verbatim>\<open>lastData\<close> holds the price, supply and decimals of
  the last \<open>update\<close> event sent, or its initial value when none was sent; a price sent is
  positive.
\<close>

definition session_inv :: "Session \<Rightarrow> bool" where
  "session_inv s =
     (\<not> isClosed s \<and>
      (case last_update (sent s) of
         None \<Rightarrow> lastData s = \<lparr>l_supply = 0, l_price = 0, l_decimals = 9\<rparr>
       | Some u \<Rightarrow> lastData s = \<lparr>l_supply = u_supply u, l_price = u_price u,
                      l_decimals = u_decimals u\<rparr> \<and> u_price u > 0))"

section \<open>The stream client (src/lib/jupiter-client.ts)\<close>

text \<open>
  \<^verbatim>\<open>createTokenSSEStream\<close> (lines 146-234). Its closure variables are the state:
  \<^verbatim>\<open>eventSource\<close> (with the \<^verbatim>\<open>readyState\<close> of the object, \<open>None\<close> for \<^verbatim>\<open>null\<close>),
  \<^verbatim>\<open>isClosed\<close>, \<^verbatim>\<open>reconnectAttempts\<close> and \<^verbatim>\<open>reconnectTimeout\<close> (the delay of the timer
  last armed). \<open>onError_given\<close> says whether the optional \<^verbatim>\<open>onError\<close> callback was
  passed. Two logs record what the caller and the clock see: the delays passed to
  \<^verbatim>\<open>setTimeout(connect, delay)\<close> and the messages passed to \<^verbatim>\<open>onError\<close>, oldest first.
\<close>

datatype ReadyState = CONNECTING | OPEN | CLOSED

record SSEClient =
  eventSource :: "ReadyState option"
  sse_isClosed :: bool
  reconnectAttempts :: nat
  reconnectTimeout :: "nat option"
  onError_given :: bool
  scheduled :: "nat list"
  onErrorCalls :: "string list"

definition maxReconnectAttempts :: nat where
  "maxReconnectAttempts = 10"

text \<open>\<^verbatim>\<open>connect\<close> (lines 158-222): a new \<^verbatim>\<open>EventSource\<close> starts in state CONNECTING.\<close>

definition connect :: "SSEClient \<Rightarrow> SSEClient" where
  "connect s = (if sse_isClosed s then s else s\<lparr>eventSource := Some CONNECTING\<rparr>)"

text \<open>\<^verbatim>\<open>eventSource.onopen\<close> (lines 165-167); the browser has set the state to OPEN.\<close>

definition onopen :: "SSEClient \<Rightarrow> SSEClient" where
  "onopen s = s\<lparr>eventSource := Some OPEN, reconnectAttempts := 0\<rparr>"

text \<open>
  \<^verbatim>\<open>
  eventSource.onerror = () => {
    if (eventSource?.readyState === EventSource.CLOSED) {
      eventSource = null
      if (!isClosed) {
        reconnectAttempts++
        if (reconnectAttempts <= maxReconnectAttempts) {
          const delay = Math.min(1000 * Math.pow(2, reconnectAttempts), 30000)
          reconnectTimeout = setTimeout(connect, delay)
        } else {
          if (onError) onError(new Error('Max reconnect attempts reached'))
        }
      }
    }
  }
  \<close>
\<close>

definition onerror :: "SSEClient \<Rightarrow> SSEClient" where
  "onerror s =
     (if eventSource s = Some CLOSED then
        (let s1 = s\<lparr>eventSource := None\<rparr>
         in if \<not> sse_isClosed s1 then
              (let s2 = s1\<lparr>reconnectAttempts := reconnectAttempts s1 + 1\<rparr>
               in if reconnectAttempts s2 \<le> maxReconnectAttempts then
                    (let delay = min (1000 * 2 ^ reconnectAttempts s2) 30000
                     in s2\<lparr>reconnectTimeout := Some delay, scheduled := scheduled s2 @ [delay]\<rparr>)
                  else if onError_given s2 then
                    s2\<lparr>onErrorCalls := onErrorCalls s2 @ [''Max reconnect attempts reached'']\<rparr>
                  else s2)
            else s1)
      else s)"

text \<open>
  The state right after \<^verbatim>\<open>createTokenSSEStream\<close> has called \<^verbatim>\<open>connect()\<close>.
\<close>

definition sse_created :: "bool \<Rightarrow> SSEClient" where
  "sse_created onError_passed =
     connect \<lparr>eventSource = None, sse_isClosed = False, reconnectAttempts = 0,
       reconnectTimeout = None, onError_given = onError_passed, scheduled = [],
       onErrorCalls = []\<rparr>"

text \<open>
  One transport failure of the current connection: the browser closes the
  \<^verbatim>\<open>EventSource\<close> (state CLOSED) and fires \<^verbatim>\<open>error\<close>; if the handler armed the reconnect
  timer, the timer fires later and calls \<^verbatim>\<open>connect\<close>. Without a connection nothing can
  fail.
\<close>

definition transport_failure :: "SSEClient \<Rightarrow> SSEClient" where
  "transport_failure s =
     (case eventSource s of
        None \<Rightarrow> s
      | Some rs \<Rightarrow>
          (let s1 = onerror (s\<lparr>eventSource := Some CLOSED\<rparr>)
           in if length (scheduled s1) > length (scheduled s) then connect s1 else s1))"

section \<open>The tracker's update reducer and message scheduler (src/components/waifu-tracker.tsx)\<close>

text \<open>
  The token object the component holds. TypeScript's types are erased at run time: the
  state can be an object built from a stream event (\<^verbatim>\<open>updatedData as TokenData\<close>), so
  every field may be \<^verbatim>\<open>undefined\<close> (\<open>None\<close>). \<open>td_timestamp\<close> is the \<^verbatim>\<open>timestamp\<close> field
  that stream events carry. The fields are prefixed with \<open>td_\<close>.
\<close>

record TokenData =
  td_address :: "string option"
  td_supply :: "real option"
  td_decimals :: "real option"
  td_price :: "real option"
  td_marketCap :: "real option"
  td_change24h :: "real option"
  td_volume24h :: "real option"
  td_name :: "string option"
  td_symbol :: "string option"
  td_logoURI :: "string option"
  td_lastUpdated :: "int option"
  td_timestamp :: "int option"

text \<open>\<^verbatim>\<open>{ ...prev, ...updatedData }\<close>: the fields \<open>updatedData\<close> has override those of \<open>prev\<close>.\<close>

definition override :: "'a option \<Rightarrow> 'a option \<Rightarrow> 'a option" where
  "override old new = (case new of None \<Rightarrow> old | Some v \<Rightarrow> Some v)"

definition spread :: "TokenData \<Rightarrow> TokenData \<Rightarrow> TokenData" where
  "spread prev updatedData =
     \<lparr>td_address = override (td_address prev) (td_address updatedData),
      td_supply = override (td_supply prev) (td_supply updatedData),
      td_decimals = override (td_decimals prev) (td_decimals updatedData),
      td_price = override (td_price prev) (td_price updatedData),
      td_marketCap = override (td_marketCap prev) (td_marketCap updatedData),
      td_change24h = override (td_change24h prev) (td_change24h updatedData),
      td_volume24h = override (td_volume24h prev) (td_volume24h updatedData),
      td_name = override (td_name prev) (td_name updatedData),
      td_symbol = override (td_symbol prev) (td_symbol updatedData),
      td_logoURI = override (td_logoURI prev) (td_logoURI updatedData),
      td_lastUpdated = override (td_lastUpdated prev) (td_lastUpdated updatedData),
      td_timestamp = override (td_timestamp prev) (td_timestamp updatedData)\<rparr>"

text \<open>\<^verbatim>\<open>x > 0\<close> and \<^verbatim>\<open>x <= 0\<close> on a possibly undefined number: both false for \<^verbatim>\<open>undefined\<close>.\<close>

definition gt0 :: "real option \<Rightarrow> bool" where
  "gt0 x = (case x of None \<Rightarrow> False | Some r \<Rightarrow> r > 0)"

definition le0 :: "real option \<Rightarrow> bool" where
  "le0 x = (case x of None \<Rightarrow> False | Some r \<Rightarrow> r \<le> 0)"

text \<open>
  \<^verbatim>\<open>
  function shouldTriggerMessage(prev: TokenData | null, next: TokenData): boolean {
    if (!prev) return true
    if (prev.price <= 0 || next.price <= 0) return true
    const priceDelta = Math.abs((next.price - prev.price) / prev.price)
    const changeDelta = Math.abs((next.change24h || 0) - (prev.change24h || 0))
    return priceDelta >= 0.0005 || changeDelta >= 0.05
  }
  \<close>
  With an undefined price the quotient is NaN and \<^verbatim>\<open>NaN >= 0.0005\<close> is false.
\<close>

definition shouldTriggerMessage :: "TokenData option \<Rightarrow> TokenData \<Rightarrow> bool" where
  "shouldTriggerMessage prev next =
     (case prev of
        None \<Rightarrow> True
      | Some p \<Rightarrow>
          if le0 (td_price p) \<or> le0 (td_price next) then True
          else
            (let priceDelta_ge =
                   (case (td_price p, td_price next) of
                      (Some pp, Some np) \<Rightarrow> \<bar>(np - pp) / pp\<bar> \<ge> 5 / 10000
                    | _ \<Rightarrow> False);
                 changeDelta = \<bar>num_or_zero (td_change24h next) - num_or_zero (td_change24h p)\<bar>
             in priceDelta_ge \<or> changeDelta \<ge> 5 / 100))"

record ChartPoint =
  cp_timestamp :: int
  cp_price :: real
  cp_marketCap :: "real option"

text \<open>
  The component's state and refs. \<^verbatim>\<open>emotionRef\<close> mirrors \<open>emotion\<close> and
  \<^verbatim>\<open>tokenDataRef\<close> mirrors \<open>tokenData\<close> (effects at lines 137-143), so they have no
  fields of their own. \<open>messageTimerRef\<close> holds the time at which the armed timer is due.
  \<open>generated\<close> logs the calls of \<^verbatim>\<open>generateMessage\<close>, each of which appends one chat
  message: the clock and the emotion, oldest first.
\<close>

record Tracker =
  tokenData :: "TokenData option"
  emotion :: Emotion
  updateCount :: nat
  chartData :: "ChartPoint list"
  lastUpdateRef :: int
  lastMessageAtRef :: int
  lastMessageEmotionRef :: "Emotion option"
  pendingEmotionRef :: "Emotion option"
  messageTimerRef :: "int option"
  generated :: "(int \<times> Emotion) list"

definition UPDATE_THROTTLE_MS :: int where
  "UPDATE_THROTTLE_MS = 500"

text \<open>\<^verbatim>\<open>scheduleMessage\<close> (lines 186-223); \<open>now\<close> is its \<^verbatim>\<open>Date.now()\<close>.\<close>

definition scheduleMessage :: "int \<Rightarrow> Emotion \<Rightarrow> Tracker \<Rightarrow> Tracker" where
  "scheduleMessage now newEmotion s =
     (if lastMessageEmotionRef s = Some newEmotion then s
      else
        (let s1 = s\<lparr>pendingEmotionRef := Some newEmotion\<rparr>;
             elapsed = now - lastMessageAtRef s1
         in if elapsed \<ge> 5000 \<and> messageTimerRef s1 = None then
              s1\<lparr>lastMessageAtRef := now, lastMessageEmotionRef := Some newEmotion,
                 generated := generated s1 @ [(now, newEmotion)]\<rparr>
            else if messageTimerRef s1 \<noteq> None then s1
            else
              (let delay = max 0 (5000 - elapsed)
               in s1\<lparr>messageTimerRef := Some (now + delay)\<rparr>)))"

text \<open>
  The timer's callback (lines 213-220), run at clock \<open>now\<close>:
  \<^verbatim>\<open>
  messageTimerRef.current = null
  const pending = pendingEmotionRef.current
  if (!pending || pending === lastMessageEmotionRef.current) return
  lastMessageAtRef.current = Date.now()
  lastMessageEmotionRef.current = pending
  void generateMessage(pending)
  \<close>
\<close>

definition messageTimer_fires :: "int \<Rightarrow> Tracker \<Rightarrow> Tracker" where
  "messageTimer_fires now s =
     (let s1 = s\<lparr>messageTimerRef := None\<rparr>
      in case pendingEmotionRef s1 of
           None \<Rightarrow> s1
         | Some pending \<Rightarrow>
             if Some pending = lastMessageEmotionRef s1 then s1
             else s1\<lparr>lastMessageAtRef := now, lastMessageEmotionRef := Some pending,
                    generated := generated s1 @ [(now, pending)]\<rparr>)"

text \<open>A run of calls of \<^verbatim>\<open>scheduleMessage\<close>, each with its clock.\<close>

definition schedule_all :: "(int \<times> Emotion) list \<Rightarrow> Tracker \<Rightarrow> Tracker" where
  "schedule_all calls s = foldl (\<lambda>s (now, e). scheduleMessage now e s) s calls"

text \<open>
  \<^verbatim>\<open>handleRealtimeUpdate\<close> (lines 225-285); \<open>now\<close> is the clock of the call. The chart
  point's \<^verbatim>\<open>time\<close> string (a locale rendering of the clock) is left out.
  \<^verbatim>\<open>prevChart.slice(-49)\<close> keeps the last 49 points.
\<close>

definition handleRealtimeUpdate :: "int \<Rightarrow> TokenData \<Rightarrow> Tracker \<Rightarrow> Tracker" where
  "handleRealtimeUpdate now updatedData s =
     (if now - lastUpdateRef s < UPDATE_THROTTLE_MS then s
      else
        (let s1 = s\<lparr>lastUpdateRef := now, updateCount := updateCount s + 1\<rparr>
         in case tokenData s1 of
              None \<Rightarrow>
                if truthy (td_address updatedData) \<and> td_supply updatedData \<noteq> None then
                  (let initial = updatedData;
                       s2 = (case td_change24h initial of
                               Some c \<Rightarrow> s1\<lparr>emotion := getEmotionFromChange c\<rparr>
                             | None \<Rightarrow> s1)
                   in s2\<lparr>tokenData := Some initial\<rparr>)
                else s1\<lparr>tokenData := None\<rparr>
            | Some prev \<Rightarrow>
                (let merged0 = spread prev updatedData;
                     merged = (if gt0 (td_price merged0) \<and> gt0 (td_supply merged0)
                               then merged0\<lparr>td_marketCap :=
                                      Some (the (td_price merged0) * the (td_supply merged0))\<rparr>
                               else merged0);
                     shortMove = (if gt0 (td_price prev) \<and> gt0 (td_price merged)
                                  then (the (td_price merged) - the (td_price prev))
                                         / the (td_price prev)
                                  else 0);
                     newEmotion = (case getEmotionFromShortMove shortMove of
                                     Some shortEmotion \<Rightarrow> shortEmotion
                                   | None \<Rightarrow>
                                       (case td_change24h merged of
                                          Some c \<Rightarrow> getEmotionFromChange c
                                        | None \<Rightarrow> emotion s1));
                     s2 = s1\<lparr>emotion := newEmotion\<rparr>;
                     s3 = (if shouldTriggerMessage (Some prev) merged
                           then scheduleMessage now newEmotion s2 else s2);
                     s4 = (if gt0 (td_price merged)
                           then s3\<lparr>chartData :=
                                  drop (length (chartData s3) - 49) (chartData s3) @
                                  [\<lparr>cp_timestamp = now, cp_price = the (td_price merged),
                                    cp_marketCap = td_marketCap merged\<rparr>]\<rparr>
                           else s3)
                 in s4\<lparr>tokenData := Some merged\<rparr>)))"

text \<open>
  What the client's \<^verbatim>\<open>JSON.parse(event.data).data\<close> is for an \<open>update\<close> event the route
  sent: the seven fields of the event's \<^verbatim>\<open>data\<close>, and no others.
\<close>

definition wire_data :: "UpdateData \<Rightarrow> TokenData" where
  "wire_data u =
     \<lparr>td_address = None, td_supply = Some (u_supply u),
      td_decimals = Some (real (u_decimals u)), td_price = Some (u_price u),
      td_marketCap = Some (u_marketCap u), td_change24h = Some (u_change24h u),
      td_volume24h = Some (u_volume24h u), td_name = None, td_symbol = None,
      td_logoURI = None, td_lastUpdated = None, td_timestamp = Some (u_timestamp u)\<rparr>"

text \<open>
  \<^verbatim>\<open>eventSource.onmessage\<close> (jupiter-client.ts lines 169-202) with the tracker's
  callbacks: an \<open>update\<close> event goes to \<^verbatim>\<open>handleRealtimeUpdate\<close>; \<open>connected\<close> and
  \<open>error\<close> only set the connection badge, which is not part of this state; \<open>keepalive\<close>
  does nothing. The route sends no \<open>refresh\<close> event.
\<close>

definition onmessage :: "int \<Rightarrow> TokenUpdateEvent \<Rightarrow> Tracker \<Rightarrow> Tracker" where
  "onmessage now event s =
     (case event of
        Update t u \<Rightarrow> handleRealtimeUpdate now (wire_data u) s
      | Connected t m \<Rightarrow> s
      | ErrorEvent t m \<Rightarrow> s
      | Keepalive t \<Rightarrow> s)"

text \<open>The component's state when it mounts (lines 120-135).\<close>

definition tracker_mounted :: Tracker where
  "tracker_mounted =
     \<lparr>tokenData = None, emotion = Neutral, updateCount = 0, chartData = [],
      lastUpdateRef = 0, lastMessageAtRef = 0, lastMessageEmotionRef = None,
      pendingEmotionRef = None, messageTimerRef = None, generated = []\<rparr>"

text \<open>
  \<^verbatim>\<open>fetchTokenInfo\<close> (lines 287-350) when the client's \<^verbatim>\<open>fetchTokenData\<close> has resolved to
  \<open>data\<close> (\<open>None\<close> for \<^verbatim>\<open>null\<close>); \<open>now\<close> is the clock. Data without an address or a
  supply is ignored; otherwise the data replaces the token state. The comparisons of
  \<^verbatim>\<open>getEmotionFromChange\<close> are all false on \<^verbatim>\<open>undefined\<close>, which gives "angry".
\<close>

definition fetchTokenInfo_resolved :: "int \<Rightarrow> TokenData option \<Rightarrow> Tracker \<Rightarrow> Tracker" where
  "fetchTokenInfo_resolved now fetched_data s =
     (case fetched_data of
        None \<Rightarrow> s
      | Some next \<Rightarrow>
          if \<not> truthy (td_address next) \<or> td_supply next = None then s
          else
            (let emotionFromChange =
                   (case td_change24h next of
                      Some c \<Rightarrow> getEmotionFromChange c
                    | None \<Rightarrow> Angry)
             in case tokenData s of
                  None \<Rightarrow>
                    (let s1 = (if gt0 (td_price next)
                               then s\<lparr>chartData :=
                                      [\<lparr>cp_timestamp = now, cp_price = the (td_price next),
                                        cp_marketCap = td_marketCap next\<rparr>]\<rparr>
                               else s);
                         newEmotion = emotionFromChange;
                         s2 = scheduleMessage now newEmotion (s1\<lparr>emotion := newEmotion\<rparr>)
                     in s2\<lparr>tokenData := Some next\<rparr>)
                | Some prev \<Rightarrow>
                    (let shortMove = (if gt0 (td_price prev) \<and> gt0 (td_price next)
                                      then (the (td_price next) - the (td_price prev))
                                             / the (td_price prev)
                                      else 0);
                         newEmotion = (case getEmotionFromShortMove shortMove of
                                         Some shortEmotion \<Rightarrow> shortEmotion
                                       | None \<Rightarrow> emotionFromChange);
                         s1 = s\<lparr>emotion := newEmotion\<rparr>;
                         s2 = (if shouldTriggerMessage (Some prev) next
                               then scheduleMessage now newEmotion s1 else s1);
                         s3 = (if gt0 (td_price next)
                               then s2\<lparr>chartData :=
                                      drop (length (chartData s2) - 49) (chartData s2) @
                                      [\<lparr>cp_timestamp = now, cp_price = the (td_price next),
                                        cp_marketCap = td_marketCap next\<rparr>]\<rparr>
                               else s2)
                     in s3\<lparr>tokenData := Some next\<rparr>)))"

text \<open>
  A token as the client's fetch returns it, and the tracker after that fetch has
  resolved in a freshly mounted component.
\<close>

definition example_token :: TokenData where
  "example_token =
     \<lparr>td_address = Some ''So11'', td_supply = Some 1000, td_decimals = Some 9,
      td_price = Some 2, td_marketCap = Some 2000, td_change24h = Some 1,
      td_volume24h = Some 3, td_name = Some ''Dex Name'', td_symbol = Some ''DEX'',
      td_logoURI = None, td_lastUpdated = Some 1700000000000, td_timestamp = None\<rparr>"

definition tracker_loaded :: Tracker where
  "tracker_loaded = fetchTokenInfo_resolved 1700000000000 (Some example_token) tracker_mounted"

subsection \<open>Concrete upstream answers\<close>

text \<open>
  DexScreener knows the token's symbol and name but has no usable price; Jupiter has a
  price and its own symbol and name; no Birdeye key is configured.
\<close>

definition env_dex_no_price :: Upstreams where
  "env_dex_no_price =
     \<lparr>dexscreener = Response 200 (JsonValue (Some
        [\<lparr>liquidity_usd = Some 10, priceUsd = None, priceWaifuge_h24 = None,
          priceChange_h24 = None, volume_h24 = None, baseToken_symbol = Some ''DEX'',
          baseToken_name = Some ''Dex Name'', fdv = None, pair_marketCap = None,
          pairAddress = None\<rparr>])),
      jupiter = Response 200 (JsonValue (Some
        \<lparr>jup_price = Some 2, jup_priceWaifuge24h = Some 1, jup_volume24h = Some 3,
         jup_symbol = Some ''JUP'', jup_name = Some ''Jupiter Name''\<rparr>)),
      BIRDEYE_API_KEY = None,
      birdeye = FetchThrows ''not called'',
      birdeye_overview = FetchThrows ''not called''\<rparr>"

text \<open>No provider has data: DexScreener lists no pairs, Jupiter answers 503.\<close>

definition env_no_data :: Upstreams where
  "env_no_data =
     \<lparr>dexscreener = Response 200 (JsonValue (Some [])),
      jupiter = Response 503 (JsonThrows ''Unexpected token''),
      BIRDEYE_API_KEY = None,
      birdeye = FetchThrows ''not called'',
      birdeye_overview = FetchThrows ''not called''\<rparr>"


text \<open>
  A cached chart result, a cache holding it in an entry older than the TTL, and a full
  cache: 100 entries with distinct keys, written at times 0 to 99.
\<close>

definition example_pair :: Pair where
  "example_pair =
     \<lparr>liquidity_usd = Some 10, priceUsd = Some 2, priceWaifuge_h24 = None,
      priceChange_h24 = Some 1, volume_h24 = Some 3, baseToken_symbol = Some ''DEX'',
      baseToken_name = Some ''Dex Name'', fdv = Some 2000, pair_marketCap = None,
      pairAddress = Some ''pair1''\<rparr>"

definition example_result :: ChartResult where
  "example_result =
     \<lparr>cr_success = True, cr_price = 2, cr_priceChange24h = 1, cr_volume24h = 3,
      cr_pairAddress = Some ''pair1'', cr_pairData = example_pair\<rparr>"

definition stale_cache :: Cache where
  "stale_cache = [(''So11'', \<lparr>data = example_result, timestamp = 1000\<rparr>)]"

definition full_cache :: Cache where
  "full_cache =
     map (\<lambda>n. (replicate (Suc n) CHR ''k'', \<lparr>data = example_result, timestamp = int n\<rparr>))
       [0..<100]"

text \<open>
  A full cache whose two oldest entries, \<open>a\<close> written before \<open>b\<close>, carry the same
  timestamp: two puts within one millisecond.
\<close>

definition two_tied_cache :: Cache where
  "two_tied_cache =
     (''a'', \<lparr>data = example_result, timestamp = 0\<rparr>) #
     (''b'', \<lparr>data = example_result, timestamp = 0\<rparr>) #
     map (\<lambda>n. (replicate (Suc n) CHR ''k'', \<lparr>data = example_result, timestamp = int n + 1\<rparr>))
       [0..<98]"

text \<open>The same answers with other 24h statistics from Jupiter and the same price.\<close>

definition env_change_only :: Upstreams where
  "env_change_only =
     env_dex_no_price\<lparr>jupiter := Response 200 (JsonValue (Some
        \<lparr>jup_price = Some 2, jup_priceWaifuge24h = Some 7, jup_volume24h = Some 9,
         jup_symbol = Some ''JUP'', jup_name = Some ''Jupiter Name''\<rparr>))\<rparr>"

section \<open>Theorems\<close>

subsection \<open>C2: the 24h-change classifier\<close>

text \<open>
  C2, as stated, asks that a 24h change of exactly 5.0 classifies as happy. The code
  compares with a strict \<open>change > 5\<close>, so 5.0 falls through to the next test and is
  classified neutral.
\<close>

theorem C2_boundary_five_counterexample:
  "getEmotionFromChange 5 = Neutral \<and> getEmotionFromChange 5 \<noteq> Happy"
  by (simp add: getEmotionFromChange_def)

text \<open>
  C2 (amended). The classifier is total and its six result classes are the disjoint
  intervals given by the strict thresholds: excited above 20, happy in (5, 20],
  neutral in (-5, 5], worried in (-15, -5], sad in (-30, -15], angry at or below -30.
  Every real change therefore gets exactly one emotion, and each upper boundary belongs
  to the lower class.
\<close>

theorem C2_classifier_intervals:
  "(getEmotionFromChange c = Excited \<longleftrightarrow> 20 < c) \<and>
   (getEmotionFromChange c = Happy \<longleftrightarrow> 5 < c \<and> c \<le> 20) \<and>
   (getEmotionFromChange c = Neutral \<longleftrightarrow> -5 < c \<and> c \<le> 5) \<and>
   (getEmotionFromChange c = Worried \<longleftrightarrow> -15 < c \<and> c \<le> -5) \<and>
   (getEmotionFromChange c = Sad \<longleftrightarrow> -30 < c \<and> c \<le> -15) \<and>
   (getEmotionFromChange c = Angry \<longleftrightarrow> c \<le> -30)"
  by (simp add: getEmotionFromChange_def)


subsection \<open>The price endpoint\<close>

lemmas price_eval =
  GET_token_price_def price_method1_def price_method2_def price_method3_def sortPairs_def
  num_or_zero_def truthy_def or_null_def or_else_def ok_def no_price_found_def
  birdeye_price_def overview_stats_def

lemma or_else_None: "or_else None x = x"
  by (simp add: or_else_def truthy_def)

lemma price_method2_backfill:
  "price_method2 u s n =
     (case price_method2 u None None of
        None \<Rightarrow> None
      | Some (Json b st) \<Rightarrow>
          Some (Json (b\<lparr>pb_tokenSymbol := or_else s (pb_tokenSymbol b),
                        pb_tokenName := or_else n (pb_tokenName b)\<rparr>) st)
      | Some (ErrorJson m st) \<Rightarrow> Some (ErrorJson m st))"
  by (simp add: price_method2_def Let_def or_else_None
      split: upstream.splits json_result.splits option.splits)

lemma price_method3_fields:
  "price_method3 u ov s n =
     (case price_method3 u ov None None of
        (None, calls) \<Rightarrow> (None, calls)
      | (Some (Json b st), calls) \<Rightarrow>
          (Some (Json (b\<lparr>pb_tokenSymbol := s, pb_tokenName := n\<rparr>) st), calls)
      | (Some (ErrorJson m st), calls) \<Rightarrow> (Some (ErrorJson m st), calls))"
  by (simp add: price_method3_def Let_def split: upstream.splits json_result.splits option.splits prod.splits)

lemma price_method3_calls: "price_method3 u ov s n = (r, calls) \<Longrightarrow> \<exists>rest. calls = Birdeye # rest"
  by (auto simp add: price_method3_def Let_def split: upstream.splits json_result.splits option.splits prod.splits if_splits)

lemma price_method1_success:
  "price_method1 u = (Some r, s, n) \<Longrightarrow>
     \<exists>b. r = Json b 200 \<and> pb_success b \<and> pb_price b > 0 \<and> pb_source b = Some ''dexscreener''
        \<and> pb_tokenSymbol b = s \<and> pb_tokenName b = n"
  by (auto simp add: price_method1_def Let_def split: upstream.splits json_result.splits option.splits list.splits if_splits)

lemma price_method2_success:
  "price_method2 u s n = Some r \<Longrightarrow>
     \<exists>b. r = Json b 200 \<and> pb_success b \<and> pb_price b > 0 \<and> pb_source b = Some ''jupiter''"
  by (auto simp add: price_method2_def Let_def split: upstream.splits json_result.splits option.splits list.splits if_splits)

lemma price_method3_success:
  "price_method3 u ov s n = (Some r, calls) \<Longrightarrow>
     \<exists>b. r = Json b 200 \<and> pb_success b \<and> pb_price b > 0 \<and> pb_source b = Some ''birdeye''"
  by (auto simp add: price_method3_def Let_def split: upstream.splits json_result.splits option.splits list.splits if_splits prod.splits)

text \<open>
  C1, as stated, returns the winning adapter's own symbol and name whenever it has them
  and backfills only what it lacks. The code prefers DexScreener's values
  (\<^verbatim>\<open>dexTokenSymbol || tokenSymbol\<close>): here Jupiter wins on price and supplies the symbol
  JUP, and the response carries DexScreener's DEX.
\<close>

theorem C1_winner_symbol_counterexample:
  "price_method2 (jupiter env_dex_no_price) None None =
     Some (Json \<lparr>pb_success = True, pb_source = Some ''jupiter'', pb_price = 2,
       pb_change24h = 1, pb_volume24h = 3, pb_tokenSymbol = Some ''JUP'',
       pb_tokenName = Some ''Jupiter Name''\<rparr> 200) \<and>
   fst (GET_token_price (Some ''So11'') env_dex_no_price) =
     Json \<lparr>pb_success = True, pb_source = Some ''jupiter'', pb_price = 2,
       pb_change24h = 1, pb_volume24h = 3, pb_tokenSymbol = Some ''DEX'',
       pb_tokenName = Some ''Dex Name''\<rparr> 200"
  by (simp add: env_dex_no_price_def price_eval)

text \<open>
  C1 (amended). For a non-empty address the endpoint calls DexScreener, then Jupiter,
  then Birdeye (Birdeye only when an API key is configured), and answers with the first
  method that yields a price above 0. Symbol and name are field-merged with
  DexScreener's only: a DexScreener answer carries its own; a Jupiter answer carries
  DexScreener's where DexScreener supplied one and Jupiter's own otherwise; a Birdeye
  answer carries DexScreener's (possibly none). Jupiter's symbol and name are never
  carried into a Birdeye answer.
\<close>

theorem C1_first_success_dex_metadata:
  assumes addr: "truthy tokenAddress"
    and m1: "price_method1 (dexscreener env) = (r1, dexSym, dexName)"
  shows
   "(r1 = Some resp \<longrightarrow> GET_token_price tokenAddress env = (resp, [DexScreener])) \<and>
    (r1 = None \<and> price_method2 (jupiter env) None None = Some (Json b st) \<longrightarrow>
       GET_token_price tokenAddress env =
         (Json (b\<lparr>pb_tokenSymbol := or_else dexSym (pb_tokenSymbol b),
                   pb_tokenName := or_else dexName (pb_tokenName b)\<rparr>) st,
          [DexScreener, Jupiter])) \<and>
    (r1 = None \<and> price_method2 (jupiter env) None None = None \<and> truthy (BIRDEYE_API_KEY env) \<and>
     price_method3 (birdeye env) (birdeye_overview env) None None = (Some (Json b st), calls) \<longrightarrow>
       GET_token_price tokenAddress env =
         (Json (b\<lparr>pb_tokenSymbol := dexSym, pb_tokenName := dexName\<rparr>) st,
          [DexScreener, Jupiter] @ calls) \<and> hd calls = Birdeye) \<and>
    (\<not> truthy (BIRDEYE_API_KEY env) \<longrightarrow> Birdeye \<notin> set (snd (GET_token_price tokenAddress env)))"
proof (intro conjI impI)
  assume "r1 = Some resp"
  with addr m1 show "GET_token_price tokenAddress env = (resp, [DexScreener])"
    by (simp add: GET_token_price_def)
next
  assume h: "r1 = None \<and> price_method2 (jupiter env) None None = Some (Json b st)"
  with addr m1 price_method2_backfill [of "jupiter env" dexSym dexName]
  show "GET_token_price tokenAddress env =
         (Json (b\<lparr>pb_tokenSymbol := or_else dexSym (pb_tokenSymbol b),
                   pb_tokenName := or_else dexName (pb_tokenName b)\<rparr>) st,
          [DexScreener, Jupiter])"
    by (simp add: GET_token_price_def)
next
  assume h: "r1 = None \<and> price_method2 (jupiter env) None None = None \<and>
     truthy (BIRDEYE_API_KEY env) \<and>
     price_method3 (birdeye env) (birdeye_overview env) None None = (Some (Json b st), calls)"
  with addr m1 price_method2_backfill [of "jupiter env" dexSym dexName]
     price_method3_fields [of "birdeye env" "birdeye_overview env" dexSym dexName]
  show "GET_token_price tokenAddress env =
         (Json (b\<lparr>pb_tokenSymbol := dexSym, pb_tokenName := dexName\<rparr>) st,
          [DexScreener, Jupiter] @ calls)"
    by (simp add: GET_token_price_def)
  from h price_method3_calls show "hd calls = Birdeye"
    by fastforce
next
  assume "\<not> truthy (BIRDEYE_API_KEY env)"
  with addr m1 show "Birdeye \<notin> set (snd (GET_token_price tokenAddress env))"
    by (simp add: GET_token_price_def split: option.splits)
qed

theorem C1_first_success_dex_metadata_witness:
  "truthy (Some ''So11'') \<and>
   price_method1 (dexscreener env_dex_no_price) = (None, Some ''DEX'', Some ''Dex Name'') \<and>
   GET_token_price (Some ''So11'') env_dex_no_price =
     (Json \<lparr>pb_success = True, pb_source = Some ''jupiter'', pb_price = 2,
        pb_change24h = 1, pb_volume24h = 3, pb_tokenSymbol = Some ''DEX'',
        pb_tokenName = Some ''Dex Name''\<rparr> 200, [DexScreener, Jupiter])"
proof -
  have addr: "truthy (Some ''So11'')"
    by (simp add: truthy_def)
  have m1: "price_method1 (dexscreener env_dex_no_price) = (None, Some ''DEX'', Some ''Dex Name'')"
    by (simp add: env_dex_no_price_def price_eval)
  have m2: "price_method2 (jupiter env_dex_no_price) None None =
     Some (Json \<lparr>pb_success = True, pb_source = Some ''jupiter'', pb_price = 2,
       pb_change24h = 1, pb_volume24h = 3, pb_tokenSymbol = Some ''JUP'',
       pb_tokenName = Some ''Jupiter Name''\<rparr> 200)"
    by (simp add: env_dex_no_price_def price_eval)
  from m2 C1_first_success_dex_metadata [OF addr m1, where st = 200 and
      b = "\<lparr>pb_success = True, pb_source = Some ''jupiter'', pb_price = 2,
        pb_change24h = 1, pb_volume24h = 3, pb_tokenSymbol = Some ''JUP'',
        pb_tokenName = Some ''Jupiter Name''\<rparr>"]
  have "GET_token_price (Some ''So11'') env_dex_no_price =
     (Json (\<lparr>pb_success = True, pb_source = Some ''jupiter'', pb_price = 2,
        pb_change24h = 1, pb_volume24h = 3, pb_tokenSymbol = Some ''JUP'',
        pb_tokenName = Some ''Jupiter Name''\<rparr>
        \<lparr>pb_tokenSymbol := or_else (Some ''DEX'') (Some ''JUP''),
          pb_tokenName := or_else (Some ''Dex Name'') (Some ''Jupiter Name'')\<rparr>) 200,
      [DexScreener, Jupiter])"
    by simp
  with addr m1 show ?thesis
    by (simp add: or_else_def truthy_def)
qed

lemma GET_token_price_body:
  assumes "truthy tokenAddress"
  shows "\<exists>b. fst (GET_token_price tokenAddress env) = Json b 200 \<and>
           (pb_success b \<longleftrightarrow> 0 < pb_price b) \<and> (\<not> pb_success b \<longrightarrow> pb_price b = 0)"
proof -
  obtain r1 s n where m1: "price_method1 (dexscreener env) = (r1, s, n)"
    by (cases "price_method1 (dexscreener env)") auto
  show ?thesis
  proof (cases r1)
    case (Some r)
    with m1 price_method1_success [of "dexscreener env" r s n] assms show ?thesis
      by (auto simp add: GET_token_price_def)
  next
    case None
    note r1 = this
    show ?thesis
    proof (cases "price_method2 (jupiter env) s n")
      case (Some r)
      with m1 r1 price_method2_success [of "jupiter env" s n r] assms show ?thesis
        by (auto simp add: GET_token_price_def)
    next
      case None
      note r2 = this
      show ?thesis
      proof (cases "truthy (BIRDEYE_API_KEY env)")
        case False
        with m1 r1 r2 assms show ?thesis
          by (simp add: GET_token_price_def no_price_found_def)
      next
        case True
        obtain r3 calls where m3:
          "price_method3 (birdeye env) (birdeye_overview env) s n = (r3, calls)"
          by (cases "price_method3 (birdeye env) (birdeye_overview env) s n") auto
        show ?thesis
        proof (cases r3)
          case None
          with m1 r1 r2 m3 True assms show ?thesis
            by (simp add: GET_token_price_def no_price_found_def)
        next
          case (Some r)
          with m1 r1 r2 m3 True assms
            price_method3_success [of "birdeye env" "birdeye_overview env" s n r calls]
          show ?thesis
            by (auto simp add: GET_token_price_def)
        qed
      qed
    qed
  qed
qed

lemma GET_token_price_no_data:
  assumes "truthy tokenAddress"
    and "fst (price_method1 (dexscreener env)) = None"
    and "price_method2 (jupiter env) None None = None"
    and "truthy (BIRDEYE_API_KEY env) \<longrightarrow>
          fst (price_method3 (birdeye env) (birdeye_overview env) None None) = None"
  shows "fst (GET_token_price tokenAddress env) =
           no_price_found (fst (snd (price_method1 (dexscreener env))))
             (snd (snd (price_method1 (dexscreener env))))"
proof -
  obtain r1 s n where m1: "price_method1 (dexscreener env) = (r1, s, n)"
    by (cases "price_method1 (dexscreener env)") auto
  with assms(2) have r1: "r1 = None" by simp
  from assms(3) price_method2_backfill [of "jupiter env" s n]
  have r2: "price_method2 (jupiter env) s n = None" by simp
  show ?thesis
  proof (cases "truthy (BIRDEYE_API_KEY env)")
    case False
    with m1 r1 r2 assms(1) show ?thesis
      by (simp add: GET_token_price_def)
  next
    case True
    with assms(4) price_method3_fields [of "birdeye env" "birdeye_overview env" s n]
    have "fst (price_method3 (birdeye env) (birdeye_overview env) s n) = None"
      by (simp split: prod.splits option.splits)
    with m1 r1 r2 True assms(1) show ?thesis
      by (auto simp add: GET_token_price_def split: prod.splits option.splits)
  qed
qed

text \<open>
  C8, as stated, answers 400 only when the address parameter is missing. The handler
  tests \<^verbatim>\<open>!tokenAddress\<close>, so a parameter that is present but empty
  (\<^verbatim>\<open>?address=\<close>) is answered 400 as well.
\<close>

theorem C8_empty_address_counterexample:
  "status_of (fst (GET_token_price (Some '''') env_no_data)) = 400 \<and>
   status_of (fst (GET_token_price (Some '''') env_dex_no_price)) = 400"
  by (simp add: GET_token_price_def truthy_def)

text \<open>
  C8 (amended). The response status is 400 if and only if the address parameter is
  missing or empty. For every non-empty address the endpoint answers 200 with a body
  whose \<open>success\<close> flag is set exactly when its price is above 0 and whose price is 0
  otherwise; when no provider yields a positive price the body is the no-data body
  (\<open>success: false\<close>, price 0), so no 5xx is returned for "no data found".
\<close>

theorem C8_status:
  "(status_of (fst (GET_token_price tokenAddress env)) = 400 \<longleftrightarrow> \<not> truthy tokenAddress) \<and>
   (truthy tokenAddress \<longrightarrow>
      (\<exists>b. fst (GET_token_price tokenAddress env) = Json b 200 \<and>
           (pb_success b \<longleftrightarrow> 0 < pb_price b) \<and> (\<not> pb_success b \<longrightarrow> pb_price b = 0)) \<and>
      (fst (price_method1 (dexscreener env)) = None \<and>
       price_method2 (jupiter env) None None = None \<and>
       (truthy (BIRDEYE_API_KEY env) \<longrightarrow>
          fst (price_method3 (birdeye env) (birdeye_overview env) None None) = None) \<longrightarrow>
       fst (GET_token_price tokenAddress env) =
         no_price_found (fst (snd (price_method1 (dexscreener env))))
           (snd (snd (price_method1 (dexscreener env))))))"
proof (intro conjI impI)
  show "status_of (fst (GET_token_price tokenAddress env)) = 400 \<longleftrightarrow> \<not> truthy tokenAddress"
  proof (cases "truthy tokenAddress")
    case True
    with GET_token_price_body [of tokenAddress env] show ?thesis by auto
  next
    case False
    then show ?thesis by (simp add: GET_token_price_def)
  qed
next
  assume "truthy tokenAddress"
  then show "\<exists>b. fst (GET_token_price tokenAddress env) = Json b 200 \<and>
           (pb_success b \<longleftrightarrow> 0 < pb_price b) \<and> (\<not> pb_success b \<longrightarrow> pb_price b = 0)"
    by (rule GET_token_price_body)
next
  assume "truthy tokenAddress"
    and "fst (price_method1 (dexscreener env)) = None \<and>
       price_method2 (jupiter env) None None = None \<and>
       (truthy (BIRDEYE_API_KEY env) \<longrightarrow>
          fst (price_method3 (birdeye env) (birdeye_overview env) None None) = None)"
  then show "fst (GET_token_price tokenAddress env) =
         no_price_found (fst (snd (price_method1 (dexscreener env))))
           (snd (snd (price_method1 (dexscreener env))))"
    using GET_token_price_no_data [of tokenAddress env] by blast
qed


theorem C8_status_witness:
  "truthy (Some ''So11'') \<and>
   status_of (fst (GET_token_price (Some ''So11'') env_no_data)) = 200 \<and>
   fst (GET_token_price (Some ''So11'') env_no_data) = no_price_found None None"
proof -
  have addr: "truthy (Some ''So11'')"
    by (simp add: truthy_def)
  have m1: "price_method1 (dexscreener env_no_data) = (None, None, None)"
    by (simp add: env_no_data_def price_eval)
  have m2: "price_method2 (jupiter env_no_data) None None = None"
    by (simp add: env_no_data_def price_eval)
  have key: "\<not> truthy (BIRDEYE_API_KEY env_no_data)"
    by (simp add: env_no_data_def truthy_def)
  from C8_status [of "Some ''So11''" env_no_data] addr m1 m2 key
  have "fst (GET_token_price (Some ''So11'') env_no_data) = no_price_found None None"
    by simp
  with addr show ?thesis
    by (simp add: no_price_found_def)
qed


subsection \<open>The chart-data endpoint\<close>

text \<open>
  C6. When the cache has no fresh entry for the address (so the upstream call is made)
  and the upstream call throws, answers 429, or its body fails to parse, the endpoint
  answers 200 with the cached value for the address, whatever its age, marked
  \<open>cached: true\<close> with a warning; when the cache has no entry for the address it answers
  429 (upstream 429) or 500 (upstream threw). The cache is left as it was.
\<close>

theorem C6_stale_cache_fallback:
  assumes miss: "getCachedData a now cache = None" and addr: "a \<noteq> []"
    and fails: "u = FetchThrows e \<or> u = Response 429 b \<or> (u = Response st (JsonThrows e) \<and> ok st)"
  shows "(case map_of cache a of
            Some entry \<Rightarrow>
              \<exists>w. GET_chart_data (Some a) now u now' cache =
                (Json \<lparr>cb_data = data entry, cb_cached = Some True, cb_warning = Some w\<rparr> 200,
                 cache)
          | None \<Rightarrow>
              \<exists>m. GET_chart_data (Some a) now u now' cache =
                (ErrorJson m (if u = Response 429 b then 429 else 500), cache))"
  using assms
  by (auto simp add: GET_chart_data_def chart_on_error_def ok_def
      split: option.splits upstream.splits json_result.splits)

theorem C6_stale_cache_fallback_witness:
  "getCachedData ''So11'' 60000 stale_cache = None \<and>
   (\<exists>w. GET_chart_data (Some ''So11'') 60000 (Response 429 (JsonThrows ''no body'')) 60001
          stale_cache =
        (Json \<lparr>cb_data = example_result, cb_cached = Some True, cb_warning = Some w\<rparr> 200,
         stale_cache)) \<and>
   (\<exists>m. GET_chart_data (Some ''So11'') 60000 (FetchThrows ''timeout'') 60001 [] =
        (ErrorJson m 500, []))"
proof -
  have miss: "getCachedData ''So11'' 60000 stale_cache = None"
    by (simp add: getCachedData_def stale_cache_def CACHE_TTL_def)
  have miss': "getCachedData ''So11'' 60000 [] = None"
    by (simp add: getCachedData_def)
  have addr: "''So11'' \<noteq> []"
    by simp
  have hit: "map_of stale_cache ''So11'' = Some \<lparr>data = example_result, timestamp = 1000\<rparr>"
    by (simp add: stale_cache_def)
  from C6_stale_cache_fallback [OF miss addr, of "Response 429 (JsonThrows ''no body'')"
      "''''" "JsonThrows ''no body''" 0 60001] hit
  have a: "\<exists>w. GET_chart_data (Some ''So11'') 60000 (Response 429 (JsonThrows ''no body'')) 60001
          stale_cache =
        (Json \<lparr>cb_data = example_result, cb_cached = Some True, cb_warning = Some w\<rparr> 200,
         stale_cache)"
    by simp
  from C6_stale_cache_fallback [OF miss' addr, of "FetchThrows ''timeout''"
      "''timeout''" "JsonThrows ''no body''" 0 60001]
  have b: "\<exists>m. GET_chart_data (Some ''So11'') 60000 (FetchThrows ''timeout'') 60001 [] =
        (ErrorJson m 500, [])"
    by simp
  from miss a b show ?thesis by blast
qed


subsection \<open>The chart-data cache\<close>

lemma length_map_set_le: "length (map_set k v c) \<le> Suc (length c)"
  by (induction c) auto

lemma map_set_fresh: "k \<notin> fst ` set c \<Longrightarrow> map_set k v c = c @ [(k, v)]"
  by (induction c) auto

lemma keys_map_set: "fst ` set (map_set k v c) = insert k (fst ` set c)"
proof (induction c)
  case Nil
  then show ?case by simp
next
  case (Cons x c)
  obtain k' v' where x: "x = (k', v')" by (cases x)
  show ?case
  proof (cases "k' = k")
    case True
    then show ?thesis by (simp add: x)
  next
    case False
    with Cons.IH show ?thesis by (simp add: x insert_commute)
  qed
qed

lemma distinct_map_set: "distinct (map fst c) \<Longrightarrow> distinct (map fst (map_set k v c))"
proof (induction c)
  case Nil
  then show ?case by simp
next
  case (Cons x c)
  obtain k' v' where x: "x = (k', v')" by (cases x)
  from Cons keys_map_set [of k v c] show ?case
    by (auto simp add: x)
qed

lemma foldl_map_set_length:
  "length (foldl (\<lambda>c (key, v). map_set key v c) acc xs) \<le> length acc + length xs"
proof (induction xs arbitrary: acc)
  case Nil
  then show ?case by simp
next
  case (Cons x xs)
  obtain k v where x: "x = (k, v)" by (cases x)
  have "length (foldl (\<lambda>c (key, v). map_set key v c) (map_set k v acc) xs)
          \<le> length (map_set k v acc) + length xs"
    by (rule Cons.IH)
  with length_map_set_le [of k v acc] show ?case
    by (simp add: x)
qed

lemma foldl_map_set_distinct:
  "distinct (map fst (acc @ xs)) \<Longrightarrow>
     foldl (\<lambda>c (key, v). map_set key v c) acc xs = acc @ xs"
proof (induction xs arbitrary: acc)
  case Nil
  then show ?case by simp
next
  case (Cons x xs)
  obtain k v where x: "x = (k, v)" by (cases x)
  from Cons.prems have fresh: "k \<notin> fst ` set acc"
    by (auto simp add: x)
  from Cons.prems have "distinct (map fst ((acc @ [(k, v)]) @ xs))"
    by (simp add: x)
  then have "foldl (\<lambda>c (key, v). map_set key v c) (acc @ [(k, v)]) xs = (acc @ [(k, v)]) @ xs"
    by (rule Cons.IH)
  with fresh show ?case
    by (simp add: x map_set_fresh)
qed

lemma distinct_keys_sort:
  "distinct (map fst c) \<Longrightarrow> distinct (map fst (sort_newest_first c))"
  by (simp add: sort_newest_first_def distinct_map)

lemma distinct_keys_take: "distinct (map fst c) \<Longrightarrow> distinct (map fst (take n c))"
  by (simp add: distinct_map distinct_take inj_on_def take_map [symmetric] del: take_map)

lemma sorted_take_drop:
  assumes "x \<in> set (drop n (sort_newest_first c))" and "y \<in> set (take n (sort_newest_first c))"
  shows "timestamp (snd x) \<le> timestamp (snd y)"
proof -
  let ?s = "sort_newest_first c"
  have "sorted (map (\<lambda>e. - timestamp (snd e)) ?s)"
    by (simp add: sort_newest_first_def)
  then have "sorted (map (\<lambda>e. - timestamp (snd e)) (take n ?s) @ map (\<lambda>e. - timestamp (snd e)) (drop n ?s))"
    by (simp add: map_append [symmetric] del: map_append)
  with assms have "- timestamp (snd y) \<le> - timestamp (snd x)"
    by (auto simp add: sorted_append)
  then show ?thesis by simp
qed


lemma setCachedData_small:
  "length (map_set k \<lparr>data = d, timestamp = now\<rparr> cache) \<le> 100 \<Longrightarrow>
     setCachedData k d now cache = map_set k \<lparr>data = d, timestamp = now\<rparr> cache"
  by (simp add: setCachedData_def Let_def)

lemma setCachedData_evict:
  assumes "distinct (map fst cache)"
    and "length (map_set k \<lparr>data = d, timestamp = now\<rparr> cache) > 100"
  shows "setCachedData k d now cache =
           take 100 (sort_newest_first (map_set k \<lparr>data = d, timestamp = now\<rparr> cache))"
proof -
  let ?c1 = "map_set k \<lparr>data = d, timestamp = now\<rparr> cache"
  from assms(1) have "distinct (map fst ?c1)"
    by (rule distinct_map_set)
  then have "distinct (map fst (take 100 (sort_newest_first ?c1)))"
    by (intro distinct_keys_take distinct_keys_sort)
  then have "foldl (\<lambda>c (key, v). map_set key v c) [] (take 100 (sort_newest_first ?c1))
               = [] @ take 100 (sort_newest_first ?c1)"
    by (intro foldl_map_set_distinct) simp
  with assms(2) show ?thesis
    by (simp add: setCachedData_def Let_def)
qed

lemma setCachedData_length: "length (setCachedData k d now cache) \<le> 100"
proof (cases "length (map_set k \<lparr>data = d, timestamp = now\<rparr> cache) > 100")
  case True
  have "length (foldl (\<lambda>c (key, v). map_set key v c) []
          (take 100 (sort_newest_first (map_set k \<lparr>data = d, timestamp = now\<rparr> cache))))
        \<le> length ([] :: Cache) +
          length (take 100 (sort_newest_first (map_set k \<lparr>data = d, timestamp = now\<rparr> cache)))"
    by (rule foldl_map_set_length)
  with True show ?thesis
    by (simp add: setCachedData_def Let_def)
next
  case False
  then show ?thesis
    by (simp add: setCachedData_def Let_def)
qed

lemma setCachedData_distinct:
  "distinct (map fst cache) \<Longrightarrow> distinct (map fst (setCachedData k d now cache))"
proof (cases "length (map_set k \<lparr>data = d, timestamp = now\<rparr> cache) > 100")
  case True
  assume dist: "distinct (map fst cache)"
  with True show ?thesis
    by (simp add: setCachedData_evict distinct_keys_take distinct_keys_sort distinct_map_set)
next
  case False
  assume "distinct (map fst cache)"
  with False show ?thesis
    by (simp add: setCachedData_small distinct_map_set)
qed

lemma sorted_split_max:
  "sorted (map f s) \<Longrightarrow> \<forall>x \<in> set s. f x \<le> (m :: int) \<Longrightarrow>
     s = filter (\<lambda>x. f x < m) s @ filter (\<lambda>x. f x = m) s"
proof (induction s)
  case Nil
  then show ?case by simp
next
  case (Cons x s)
  show ?case
  proof (cases "f x = m")
    case True
    with Cons.prems have "\<forall>y \<in> set s. f y = m"
      by (auto simp add: order_antisym)
    then have "filter (\<lambda>x. f x < m) s = []" and "filter (\<lambda>x. f x = m) s = s"
      by (simp_all add: filter_empty_conv)
    with True show ?thesis by simp
  next
    case False
    with Cons.prems have "f x < m" by (simp add: less_le)
    moreover from Cons have "s = filter (\<lambda>x. f x < m) s @ filter (\<lambda>x. f x = m) s"
      by simp
    ultimately show ?thesis using False by simp
  qed
qed

lemma two_tied_fresh: "''new'' \<notin> fst ` set two_tied_cache"
  by (auto simp add: two_tied_cache_def)

lemma two_tied_distinct: "distinct (map fst two_tied_cache)"
  by (auto simp add: two_tied_cache_def distinct_map inj_on_def comp_def)

lemma two_tied_length: "length two_tied_cache = 100"
  by (simp add: two_tied_cache_def)

lemma setCachedData_eviction:
  assumes h: "distinct (map fst cache) \<and>
              length (map_set k \<lparr>data = d, timestamp = now\<rparr> cache) > 100"
  shows "length (setCachedData k d now cache) = 100 \<and>
      distinct (map fst (setCachedData k d now cache)) \<and>
      set (setCachedData k d now cache) \<subseteq> set (map_set k \<lparr>data = d, timestamp = now\<rparr> cache) \<and>
      card (set (map_set k \<lparr>data = d, timestamp = now\<rparr> cache) - set (setCachedData k d now cache))
        = length (map_set k \<lparr>data = d, timestamp = now\<rparr> cache) - 100 \<and>
      (\<forall>x \<in> set (map_set k \<lparr>data = d, timestamp = now\<rparr> cache) - set (setCachedData k d now cache).
         \<forall>y \<in> set (setCachedData k d now cache). timestamp (snd x) \<le> timestamp (snd y))"
proof (intro conjI)
  let ?c1 = "map_set k \<lparr>data = d, timestamp = now\<rparr> cache"
  let ?s = "sort_newest_first ?c1"
  from h have res: "setCachedData k d now cache = take 100 ?s"
    by (simp add: setCachedData_evict)
  have len_s: "length ?s = length ?c1" and set_s: "set ?s = set ?c1"
    by (simp_all add: sort_newest_first_def)
  from h have d1: "distinct (map fst ?c1)"
    by (simp add: distinct_map_set)
  then have dc1: "distinct ?c1"
    by (simp add: distinct_map)
  then have ds: "distinct ?s"
    by (simp add: sort_newest_first_def)
  from h len_s show "length (setCachedData k d now cache) = 100"
    by (simp add: res)
  from h show "distinct (map fst (setCachedData k d now cache))"
    by (simp add: setCachedData_distinct)
  show sub: "set (setCachedData k d now cache) \<subseteq> set ?c1"
    using set_s set_take_subset [of 100 ?s] by (simp add: res)
  have split: "set ?c1 - set (take 100 ?s) = set (drop 100 ?s)"
  proof -
    have "set (take 100 ?s) \<union> set (drop 100 ?s) = set ?s"
      by (simp add: set_append [symmetric] del: set_append)
    moreover have "set (take 100 ?s) \<inter> set (drop 100 ?s) = {}"
      using ds by (simp add: set_take_disj_set_drop_if_distinct)
    ultimately show ?thesis
      using set_s by blast
  qed
  have "card (set (drop 100 ?s)) = length (drop 100 ?s)"
    using ds by (simp add: distinct_card)
  with len_s show "card (set ?c1 - set (setCachedData k d now cache)) = length ?c1 - 100"
    by (simp add: res split)
  show "\<forall>x \<in> set ?c1 - set (setCachedData k d now cache).
         \<forall>y \<in> set (setCachedData k d now cache). timestamp (snd x) \<le> timestamp (snd y)"
    unfolding res split using sorted_take_drop by blast
qed

lemma setCachedData_drops_oldest:
  assumes dk: "distinct (map fst cache)" and before: "length cache \<le> 100"
    and over: "length (map_set k \<lparr>data = d, timestamp = now\<rparr> cache) > 100"
    and dt: "distinct (map (\<lambda>e. timestamp (snd e)) (map_set k \<lparr>data = d, timestamp = now\<rparr> cache))"
  shows "\<exists>x. x \<in> set (map_set k \<lparr>data = d, timestamp = now\<rparr> cache) \<and>
           set (setCachedData k d now cache) =
             set (map_set k \<lparr>data = d, timestamp = now\<rparr> cache) - {x} \<and>
           (\<forall>y \<in> set (setCachedData k d now cache). timestamp (snd x) < timestamp (snd y))"
proof -
  let ?c1 = "map_set k \<lparr>data = d, timestamp = now\<rparr> cache"
  let ?r = "setCachedData k d now cache"
  from dk over have ev:
    "set ?r \<subseteq> set ?c1" "card (set ?c1 - set ?r) = length ?c1 - 100"
    "\<forall>x \<in> set ?c1 - set ?r. \<forall>y \<in> set ?r. timestamp (snd x) \<le> timestamp (snd y)"
    using setCachedData_eviction [of cache k d now] by simp_all
  from before length_map_set_le [of k "\<lparr>data = d, timestamp = now\<rparr>" cache] over
  have "length ?c1 = 101" by simp
  with ev(2) have "card (set ?c1 - set ?r) = 1" by simp
  then obtain x where x: "set ?c1 - set ?r = {x}"
    by (rule card_1_singletonE)
  then have xin: "x \<in> set ?c1" and xout: "x \<notin> set ?r" by auto
  from x ev(1) have eq: "set ?r = set ?c1 - {x}" by auto
  have "\<forall>y \<in> set ?r. timestamp (snd x) < timestamp (snd y)"
  proof
    fix y assume y: "y \<in> set ?r"
    with ev(1) have yin: "y \<in> set ?c1" by auto
    from y xout have "x \<noteq> y" by auto
    with dt xin yin have "timestamp (snd x) \<noteq> timestamp (snd y)"
      by (auto simp add: distinct_map inj_on_def)
    moreover from ev(3) x y have "timestamp (snd x) \<le> timestamp (snd y)" by auto
    ultimately show "timestamp (snd x) < timestamp (snd y)" by simp
  qed
  with xin eq show ?thesis by blast
qed

text \<open>
  C7, as stated, has the put drop the least-recently-written entry. The eviction orders
  the entries by their \<^verbatim>\<open>Date.now()\<close> timestamps only, with a stable sort, newest first.
  Where the two oldest entries were written in the same millisecond, the one written
  later is dropped and the one written first is kept.
\<close>

theorem C7_tied_timestamps_counterexample:
  "(''a'', \<lparr>data = example_result, timestamp = 0\<rparr>)
     \<in> set (setCachedData ''new'' example_result 5000 two_tied_cache) \<and>
   (''b'', \<lparr>data = example_result, timestamp = 0\<rparr>)
     \<notin> set (setCachedData ''new'' example_result 5000 two_tied_cache)"
proof -
  let ?a = "(''a'', \<lparr>data = example_result, timestamp = 0\<rparr>)"
  let ?b = "(''b'', \<lparr>data = example_result, timestamp = 0\<rparr>)"
  let ?f = "\<lambda>e :: string \<times> CacheEntry. - timestamp (snd e)"
  let ?c1 = "map_set ''new'' \<lparr>data = example_result, timestamp = 5000\<rparr> two_tied_cache"
  let ?s = "sort_newest_first ?c1"
  have c1: "?c1 = two_tied_cache @ [(''new'', \<lparr>data = example_result, timestamp = 5000\<rparr>)]"
    by (simp add: map_set_fresh two_tied_fresh)
  have len: "length ?c1 = 101"
    by (simp add: c1 two_tied_length)
  have tied: "filter (\<lambda>e. ?f e = 0) ?c1 = [?a, ?b]"
    by (simp add: c1) (simp add: two_tied_cache_def filter_empty_conv)
  have "filter (\<lambda>e. ?f e = 0) ?s = filter (\<lambda>e. ?f e = 0) ?c1"
    unfolding sort_newest_first_def by (rule sort_key_stable)
  with tied have tied_s: "filter (\<lambda>e. ?f e = 0) ?s = [?a, ?b]"
    by simp
  have "\<forall>e \<in> set ?c1. ?f e \<le> 0"
    by (simp add: c1) (auto simp add: two_tied_cache_def)
  then have bound: "\<forall>e \<in> set ?s. ?f e \<le> 0"
    by (simp add: sort_newest_first_def)
  have srt: "sorted (map ?f ?s)"
    by (simp add: sort_newest_first_def)
  define s where "s = ?s"
  define F where "F = filter (\<lambda>e. ?f e < 0) s"
  from sorted_split_max [OF srt bound] tied_s
  have split: "s = F @ [?a, ?b]"
    unfolding s_def F_def by simp
  have "length s = 101"
    using len by (simp add: s_def sort_newest_first_def)
  then have lenF: "length F = 99"
    by (simp add: split)
  have take: "take 100 s = F @ [?a]"
    by (simp add: split lenF)
  have "setCachedData ''new'' example_result 5000 two_tied_cache = take 100 s"
    using two_tied_distinct len by (simp add: setCachedData_evict s_def)
  with take have res: "setCachedData ''new'' example_result 5000 two_tied_cache = F @ [?a]"
    by simp
  have "?b \<notin> set F"
    by (simp add: F_def)
  then show ?thesis
    by (simp add: res)
qed


text \<open>
  C7 (amended). After every put the cache holds at most 100 entries. A put that leaves at
  most 100 entries keeps them all. A put that would leave more than 100 keeps exactly 100
  of them: every entry dropped has a write timestamp at or before that of every entry
  kept, and the number dropped is the excess over 100. When the cache held at most 100
  entries and the timestamps, the new one included, are pairwise distinct, exactly one
  entry is dropped and its timestamp is strictly older than that of every entry kept:
  the entry with the oldest write timestamp.
\<close>

theorem C7_cache_bound_and_eviction:
  "length (setCachedData k d now cache) \<le> 100 \<and>
   (length (map_set k \<lparr>data = d, timestamp = now\<rparr> cache) \<le> 100 \<longrightarrow>
      setCachedData k d now cache = map_set k \<lparr>data = d, timestamp = now\<rparr> cache) \<and>
   (distinct (map fst cache) \<and>
    length (map_set k \<lparr>data = d, timestamp = now\<rparr> cache) > 100 \<longrightarrow>
      length (setCachedData k d now cache) = 100 \<and>
      distinct (map fst (setCachedData k d now cache)) \<and>
      set (setCachedData k d now cache) \<subseteq> set (map_set k \<lparr>data = d, timestamp = now\<rparr> cache) \<and>
      card (set (map_set k \<lparr>data = d, timestamp = now\<rparr> cache) - set (setCachedData k d now cache))
        = length (map_set k \<lparr>data = d, timestamp = now\<rparr> cache) - 100 \<and>
      (\<forall>x \<in> set (map_set k \<lparr>data = d, timestamp = now\<rparr> cache) - set (setCachedData k d now cache).
         \<forall>y \<in> set (setCachedData k d now cache). timestamp (snd x) \<le> timestamp (snd y))) \<and>
   (distinct (map fst cache) \<and> length cache \<le> 100 \<and>
    length (map_set k \<lparr>data = d, timestamp = now\<rparr> cache) > 100 \<and>
    distinct (map (\<lambda>e. timestamp (snd e)) (map_set k \<lparr>data = d, timestamp = now\<rparr> cache)) \<longrightarrow>
      (\<exists>x. x \<in> set (map_set k \<lparr>data = d, timestamp = now\<rparr> cache) \<and>
           set (setCachedData k d now cache) =
             set (map_set k \<lparr>data = d, timestamp = now\<rparr> cache) - {x} \<and>
           (\<forall>y \<in> set (setCachedData k d now cache). timestamp (snd x) < timestamp (snd y))))"
proof (intro conjI impI)
  show "length (setCachedData k d now cache) \<le> 100"
    by (rule setCachedData_length)
next
  assume "length (map_set k \<lparr>data = d, timestamp = now\<rparr> cache) \<le> 100"
  then show "setCachedData k d now cache = map_set k \<lparr>data = d, timestamp = now\<rparr> cache"
    by (rule setCachedData_small)
next
  assume h: "distinct (map fst cache) \<and>
    length (map_set k \<lparr>data = d, timestamp = now\<rparr> cache) > 100"
  note ev = setCachedData_eviction [OF h]
  from ev show "length (setCachedData k d now cache) = 100" by blast
  from ev show "distinct (map fst (setCachedData k d now cache))" by blast
  from ev show "set (setCachedData k d now cache)
      \<subseteq> set (map_set k \<lparr>data = d, timestamp = now\<rparr> cache)" by blast
  from ev show "card (set (map_set k \<lparr>data = d, timestamp = now\<rparr> cache)
      - set (setCachedData k d now cache))
        = length (map_set k \<lparr>data = d, timestamp = now\<rparr> cache) - 100" by blast
  from ev show "\<forall>x \<in> set (map_set k \<lparr>data = d, timestamp = now\<rparr> cache)
        - set (setCachedData k d now cache).
         \<forall>y \<in> set (setCachedData k d now cache). timestamp (snd x) \<le> timestamp (snd y)"
    by blast
next
  assume "distinct (map fst cache) \<and> length cache \<le> 100 \<and>
    length (map_set k \<lparr>data = d, timestamp = now\<rparr> cache) > 100 \<and>
    distinct (map (\<lambda>e. timestamp (snd e)) (map_set k \<lparr>data = d, timestamp = now\<rparr> cache))"
  then show "\<exists>x. x \<in> set (map_set k \<lparr>data = d, timestamp = now\<rparr> cache) \<and>
           set (setCachedData k d now cache) =
             set (map_set k \<lparr>data = d, timestamp = now\<rparr> cache) - {x} \<and>
           (\<forall>y \<in> set (setCachedData k d now cache). timestamp (snd x) < timestamp (snd y))"
    using setCachedData_drops_oldest [of cache k d now] by blast
qed

theorem C7_cache_bound_and_eviction_witness:
  "distinct (map fst full_cache) \<and>
   length (map_set ''new'' \<lparr>data = example_result, timestamp = 5000\<rparr> full_cache) = 101 \<and>
   length (setCachedData ''new'' example_result 5000 full_cache) = 100 \<and>
   (''k'', \<lparr>data = example_result, timestamp = 0\<rparr>) \<in> set full_cache \<and>
   (''k'', \<lparr>data = example_result, timestamp = 0\<rparr>)
      \<notin> set (setCachedData ''new'' example_result 5000 full_cache) \<and>
   (''new'', \<lparr>data = example_result, timestamp = 5000\<rparr>)
      \<in> set (setCachedData ''new'' example_result 5000 full_cache)"
proof -
  let ?new = "(''new'', \<lparr>data = example_result, timestamp = 5000\<rparr>)"
  let ?old = "(''k'', \<lparr>data = example_result, timestamp = 0\<rparr>)"
  let ?c1 = "map_set ''new'' \<lparr>data = example_result, timestamp = 5000\<rparr> full_cache"
  let ?r = "setCachedData ''new'' example_result 5000 full_cache"
  have dist: "distinct (map fst full_cache)"
    by (simp add: full_cache_def distinct_map inj_on_def comp_def)
  have fresh: "''new'' \<notin> fst ` set full_cache"
    by (auto simp add: full_cache_def)
  then have c1: "?c1 = full_cache @ [?new]"
    by (simp add: map_set_fresh)
  have len0: "length full_cache \<le> 100"
    by (simp add: full_cache_def)
  have len: "length ?c1 = 101"
    by (simp add: c1) (simp add: full_cache_def)
  have old: "?old \<in> set full_cache"
    by (simp add: full_cache_def image_iff)
  have ts: "\<forall>e \<in> set ?c1. 0 \<le> timestamp (snd e)"
    by (simp add: c1) (auto simp add: full_cache_def)
  have dt: "distinct (map (\<lambda>e. timestamp (snd e)) ?c1)"
    by (simp add: c1) (auto simp add: full_cache_def distinct_map inj_on_def comp_def)
  from dist len0 len dt C7_cache_bound_and_eviction [of "''new''" example_result 5000 full_cache]
  obtain x where x: "x \<in> set ?c1" "set ?r = set ?c1 - {x}"
      "\<forall>y \<in> set ?r. timestamp (snd x) < timestamp (snd y)"
      and lenr: "length ?r = 100"
    by auto
  have "?old \<notin> set ?r"
  proof
    assume "?old \<in> set ?r"
    with x(3) have "timestamp (snd x) < 0" by auto
    with ts x(1) show False by auto
  qed
  moreover from this x(2) old c1 have "x = ?old" by auto
  with x(2) c1 have "?new \<in> set ?r" by auto
  ultimately show ?thesis
    using dist len lenr old by simp
qed

subsection \<open>The streaming session\<close>

lemmas stream_eval =
  fetchTokenData_def stream_method1_def stream_method2_def stream_method3_def sortPairs_def
  num_or_zero_def truthy_def truthy_num_def ok_def fetched_def pollTokenData_def sendEvent_def
  session_start_def polls_def

lemma stream_method1_price: "stream_method1 u v = (True, v') \<Longrightarrow> v_price v' > 0"
  by (auto simp add: stream_method1_def Let_def
      split: upstream.splits json_result.splits option.splits list.splits if_splits)

lemma stream_method2_price: "stream_method2 u v = (True, v') \<Longrightarrow> v_price v' > 0"
  by (auto simp add: stream_method2_def Let_def
      split: upstream.splits json_result.splits option.splits list.splits if_splits)

lemma stream_method3_price: "stream_method3 u ov v = (True, v') \<Longrightarrow> v_price v' > 0"
  by (auto simp add: stream_method3_def Let_def
      split: upstream.splits json_result.splits option.splits list.splits if_splits prod.splits)

lemma fetchTokenData_price:
  assumes "fetchTokenData env = Inr d"
  shows "fd_price d > 0 \<and> fd_decimals d = 9"
proof -
  obtain b1 v1 where m1: "stream_method1 (dexscreener env)
      \<lparr>v_price = 0, v_change24h = 0, v_volume24h = 0, v_supply = 0\<rparr> = (b1, v1)"
    by (cases "stream_method1 (dexscreener env)
      \<lparr>v_price = 0, v_change24h = 0, v_volume24h = 0, v_supply = 0\<rparr>") auto
  obtain b2 v2 where m2: "stream_method2 (jupiter env) v1 = (b2, v2)"
    by (cases "stream_method2 (jupiter env) v1") auto
  obtain b3 v3 where m3: "stream_method3 (birdeye env) (birdeye_overview env) v2 = (b3, v3)"
    by (cases "stream_method3 (birdeye env) (birdeye_overview env) v2") auto
  from assms m1 m2 m3 stream_method1_price [of "dexscreener env" _ v1]
    stream_method2_price [of "jupiter env" v1 v2]
    stream_method3_price [of "birdeye env" "birdeye_overview env" v2 v3]
  show ?thesis
    by (cases b1; cases b2; cases b3)
       (auto simp add: fetchTokenData_def fetched_def split: if_splits)
qed

lemma last_update_append:
  "last_update (es @ [e]) =
     (case e of Update t u \<Rightarrow> Some u | _ \<Rightarrow> last_update es)"
  by (induction es) (auto split: option.splits TokenUpdateEvent.splits)

lemma session_inv_start: "session_inv (session_start tokenAddress)"
  by (simp add: session_inv_def session_start_def sendEvent_def)

lemma session_inv_poll:
  assumes "session_inv s"
  shows "session_inv (pollTokenData tokenAddress env now s)"
proof (cases "fetchTokenData env")
  case (Inl msg)
  with assms show ?thesis
    by (simp add: session_inv_def pollTokenData_def sendEvent_def last_update_append
        split: option.splits)
next
  case (Inr d)
  with fetchTokenData_price [of env d] have "fd_price d > 0" by simp
  with assms Inr show ?thesis
    by (simp add: session_inv_def pollTokenData_def sendEvent_def last_update_append Let_def
        split: option.splits)
qed

lemma session_inv_polls: "session_inv s \<Longrightarrow> session_inv (polls tokenAddress ticks s)"
proof (induction ticks arbitrary: s)
  case Nil
  then show ?case by (simp add: polls_def)
next
  case (Cons t ticks)
  obtain env now where t: "t = (env, now)" by (cases t)
  from Cons.prems have "session_inv (pollTokenData tokenAddress env now s)"
    by (rule session_inv_poll)
  then have "session_inv (polls tokenAddress ticks (pollTokenData tokenAddress env now s))"
    by (rule Cons.IH)
  then show ?case by (simp add: polls_def t)
qed

text \<open>
  C4. In a session that has run any number of polls since its start, a poll whose fetch
  succeeds emits an \<open>update\<close> event if and only if no \<open>update\<close> was sent before or the
  fetched price, supply or decimals differ from those of the last \<open>update\<close> sent. On
  emission the event carries the fetched values and \<^verbatim>\<open>lastData\<close> is set to them;
  otherwise (in particular when only change24h or volume24h differ) the session is left
  as it was and nothing is sent.
\<close>

theorem C4_update_iff_changed:
  assumes reach: "s = polls tokenAddress ticks (session_start tokenAddress)"
    and fetch: "fetchTokenData env = Inr d"
  shows "(if (case last_update (sent s) of
               None \<Rightarrow> True
             | Some u \<Rightarrow> fd_price d \<noteq> u_price u \<or> fd_supply d \<noteq> u_supply u \<or>
                         fd_decimals d \<noteq> u_decimals u)
          then (\<exists>u. sent (pollTokenData tokenAddress env now s) = sent s @ [Update tokenAddress u] \<and>
                  u_price u = fd_price d \<and> u_supply u = fd_supply d \<and>
                  u_decimals u = fd_decimals d \<and> u_change24h u = fd_change24h d \<and>
                  u_volume24h u = fd_volume24h d \<and>
                  lastData (pollTokenData tokenAddress env now s) =
                    \<lparr>l_supply = fd_supply d, l_price = fd_price d, l_decimals = fd_decimals d\<rparr>)
          else pollTokenData tokenAddress env now s = s)"
proof -
  from reach have inv: "session_inv s"
    by (simp add: session_inv_polls session_inv_start)
  from fetch have d: "fd_price d > 0" "fd_decimals d = 9"
    using fetchTokenData_price by auto
  show ?thesis
  proof (cases "last_update (sent s)")
    case None
    with inv fetch d show ?thesis
      by (simp add: session_inv_def pollTokenData_def sendEvent_def Let_def)
  next
    case (Some u)
    with inv fetch d show ?thesis
      by (auto simp add: session_inv_def pollTokenData_def sendEvent_def Let_def)
  qed
qed


theorem C4_update_iff_changed_witness:
  "fetchTokenData env_change_only =
     Inr \<lparr>fd_price = 2, fd_change24h = 7, fd_volume24h = 9, fd_supply = 0, fd_decimals = 9\<rparr> \<and>
   last_update (sent (polls ''So11'' [(env_dex_no_price, 1000)] (session_start ''So11''))) =
     Some \<lparr>u_supply = 0, u_decimals = 9, u_price = 2, u_marketCap = 0, u_change24h = 1,
       u_volume24h = 3, u_timestamp = 1000\<rparr> \<and>
   pollTokenData ''So11'' env_change_only 6000
       (polls ''So11'' [(env_dex_no_price, 1000)] (session_start ''So11'')) =
     polls ''So11'' [(env_dex_no_price, 1000)] (session_start ''So11'')"
proof -
  have fetch: "fetchTokenData env_change_only =
     Inr \<lparr>fd_price = 2, fd_change24h = 7, fd_volume24h = 9, fd_supply = 0, fd_decimals = 9\<rparr>"
    by (simp add: env_change_only_def env_dex_no_price_def stream_eval)
  have last: "last_update (sent (polls ''So11'' [(env_dex_no_price, 1000)] (session_start ''So11''))) =
     Some \<lparr>u_supply = 0, u_decimals = 9, u_price = 2, u_marketCap = 0, u_change24h = 1,
       u_volume24h = 3, u_timestamp = 1000\<rparr>"
    by (simp add: env_dex_no_price_def stream_eval)
  from C4_update_iff_changed [OF refl fetch, of "''So11''" "[(env_dex_no_price, 1000)]" 6000] last
  have "pollTokenData ''So11'' env_change_only 6000
       (polls ''So11'' [(env_dex_no_price, 1000)] (session_start ''So11'')) =
     polls ''So11'' [(env_dex_no_price, 1000)] (session_start ''So11'')"
    by simp
  with fetch last show ?thesis by simp
qed


subsection \<open>Reconnection of the stream client\<close>

lemma failures_upto_max:
  "n \<le> 10 \<Longrightarrow>
     (transport_failure ^^ n) (sse_created b) =
       \<lparr>eventSource = Some CONNECTING, sse_isClosed = False, reconnectAttempts = n,
        reconnectTimeout = (if n = 0 then None else Some (min (1000 * 2 ^ n) 30000)),
        onError_given = b, scheduled = map (\<lambda>k. min (1000 * 2 ^ k) 30000) [1..<Suc n],
        onErrorCalls = []\<rparr>"
proof (induction n)
  case 0
  then show ?case by (simp add: sse_created_def connect_def)
next
  case (Suc n)
  then show ?case
    by (simp add: transport_failure_def onerror_def connect_def maxReconnectAttempts_def Let_def)
qed

lemma transport_failure_idle: "eventSource s = None \<Longrightarrow> transport_failure s = s"
  by (simp add: transport_failure_def)

lemma failures_beyond_max:
  "11 \<le> n \<Longrightarrow>
     (transport_failure ^^ n) (sse_created b) =
       \<lparr>eventSource = None, sse_isClosed = False, reconnectAttempts = 11,
        reconnectTimeout = Some 30000,
        onError_given = b, scheduled = map (\<lambda>k. min (1000 * 2 ^ k) 30000) [1..<11],
        onErrorCalls = (if b then [''Max reconnect attempts reached''] else [])\<rparr>"
proof (induction n rule: nat_induct_at_least)
  case base
  have "(transport_failure ^^ 11) (sse_created b) =
          transport_failure ((transport_failure ^^ 10) (sse_created b))"
    by (simp add: eval_nat_numeral)
  then show ?case
    by (simp add: failures_upto_max)
       (simp add: transport_failure_def onerror_def connect_def maxReconnectAttempts_def Let_def)
next
  case (Suc n)
  have "(transport_failure ^^ Suc n) (sse_created b) =
          transport_failure ((transport_failure ^^ n) (sse_created b))"
    by simp
  also have "\<dots> = (transport_failure ^^ n) (sse_created b)"
    by (rule transport_failure_idle) (simp add: Suc.IH)
  finally show ?case
    by (simp only: Suc.IH)
qed

text \<open>
  C5, as stated, starts the backoff at 1 s on the first retry. The handler increments
  \<^verbatim>\<open>reconnectAttempts\<close> before it computes \<^verbatim>\<open>1000 * Math.pow(2, reconnectAttempts)\<close>, so
  the first retry waits 2 s.
\<close>

theorem C5_first_delay_counterexample:
  "scheduled (transport_failure (sse_created True)) = [2000] \<and>
   scheduled (transport_failure (sse_created True)) \<noteq> [1000]"
  by (simp add: transport_failure_def onerror_def connect_def sse_created_def
      maxReconnectAttempts_def Let_def)

text \<open>
  C5 (amended). After \<open>n\<close> consecutive transport failures of a freshly created client,
  the reconnects armed are those of the first \<open>min n 10\<close> failures, the \<open>k\<close>-th with delay
  \<open>min (1000 * 2 ^ k) 30000\<close> ms: 2 s on the first retry, doubling, capped at 30 s, at
  most 10 retries. The eleventh failure arms no timer and leaves no connection; it calls
  \<^verbatim>\<open>onError\<close> once with "Max reconnect attempts reached" when the caller passed an
  \<^verbatim>\<open>onError\<close> callback.
\<close>

theorem C5_backoff:
  "scheduled ((transport_failure ^^ n) (sse_created b)) =
     map (\<lambda>k. min (1000 * 2 ^ k) 30000) [1..<Suc (min n 10)] \<and>
   onErrorCalls ((transport_failure ^^ n) (sse_created b)) =
     (if n > 10 \<and> b then [''Max reconnect attempts reached''] else []) \<and>
   (eventSource ((transport_failure ^^ n) (sse_created b)) = None \<longleftrightarrow> n > 10)"
proof (cases "n \<le> 10")
  case True
  then show ?thesis
    by (simp add: failures_upto_max)
next
  case False
  then have "11 \<le> n" by simp
  then show ?thesis
    by (simp add: failures_beyond_max)
qed


text \<open>
  The counter of attempts is reset when a connection opens (\<^verbatim>\<open>onopen\<close>), so the limit of
  10 and the delays count consecutive failures: after an open the next retry waits 2 s
  again.
\<close>

lemma onopen_resets_backoff:
  "reconnectAttempts (onopen s) = 0 \<and>
   (\<not> sse_isClosed s \<longrightarrow> scheduled (transport_failure (onopen s)) = scheduled s @ [2000])"
  by (simp add: onopen_def transport_failure_def onerror_def connect_def
      maxReconnectAttempts_def Let_def)


subsection \<open>The update reducer\<close>

lemma scheduleMessage_keeps:
  "lastUpdateRef (scheduleMessage now e s) = lastUpdateRef s"
  "updateCount (scheduleMessage now e s) = updateCount s"
  by (simp_all add: scheduleMessage_def Let_def)

lemma handleRealtimeUpdate_accepted:
  assumes "UPDATE_THROTTLE_MS \<le> now - lastUpdateRef s"
  shows "lastUpdateRef (handleRealtimeUpdate now u s) = now"
    and "updateCount (handleRealtimeUpdate now u s) = updateCount s + 1"
proof -
  show "lastUpdateRef (handleRealtimeUpdate now u s) = now"
  proof (cases "tokenData s")
    case None
    with assms show ?thesis
      by (simp add: handleRealtimeUpdate_def Let_def split: option.splits)
  next
    case (Some prev)
    with assms show ?thesis
      by (simp add: handleRealtimeUpdate_def Let_def scheduleMessage_keeps)
  qed
  show "updateCount (handleRealtimeUpdate now u s) = updateCount s + 1"
  proof (cases "tokenData s")
    case None
    with assms show ?thesis
      by (simp add: handleRealtimeUpdate_def Let_def split: option.splits)
  next
    case (Some prev)
    with assms show ?thesis
      by (simp add: handleRealtimeUpdate_def Let_def scheduleMessage_keeps)
  qed
qed

lemma handleRealtimeUpdate_tokenData:
  assumes "UPDATE_THROTTLE_MS \<le> now - lastUpdateRef s"
  shows "tokenData (handleRealtimeUpdate now u s) =
     (case tokenData s of
        None \<Rightarrow> if truthy (td_address u) \<and> td_supply u \<noteq> None then Some u else None
      | Some prev \<Rightarrow>
          Some (if gt0 (td_price (spread prev u)) \<and> gt0 (td_supply (spread prev u))
                then (spread prev u)\<lparr>td_marketCap :=
                       Some (the (td_price (spread prev u)) * the (td_supply (spread prev u)))\<rparr>
                else spread prev u))"
proof (cases "tokenData s")
  case None
  with assms show ?thesis
    by (simp add: handleRealtimeUpdate_def Let_def split: option.splits)
next
  case (Some prev)
  with assms show ?thesis
    by (simp add: handleRealtimeUpdate_def Let_def)
qed

lemma tracker_loaded_eq:
  "tracker_loaded =
     \<lparr>tokenData = Some example_token, emotion = Neutral, updateCount = 0,
      chartData = [\<lparr>cp_timestamp = 1700000000000, cp_price = 2, cp_marketCap = Some 2000\<rparr>],
      lastUpdateRef = 0, lastMessageAtRef = 1700000000000,
      lastMessageEmotionRef = Some Neutral, pendingEmotionRef = Some Neutral,
      messageTimerRef = None, generated = [(1700000000000, Neutral)]\<rparr>"
  by (simp add: tracker_loaded_def fetchTokenInfo_resolved_def example_token_def
      tracker_mounted_def truthy_def gt0_def Let_def scheduleMessage_def getEmotionFromChange_def)

lemma first_update_applied:
  "handleRealtimeUpdate 1700000000600
     (wire_data \<lparr>u_supply = 1000, u_decimals = 9, u_price = 3, u_marketCap = 3000,
        u_change24h = 1, u_volume24h = 3, u_timestamp = 1700000000550\<rparr>) tracker_loaded =
   \<lparr>tokenData = Some (example_token\<lparr>td_price := Some 3, td_marketCap := Some 3000,
        td_timestamp := Some 1700000000550\<rparr>),
    emotion = Excited, updateCount = 1,
    chartData = [\<lparr>cp_timestamp = 1700000000000, cp_price = 2, cp_marketCap = Some 2000\<rparr>,
                 \<lparr>cp_timestamp = 1700000000600, cp_price = 3, cp_marketCap = Some 3000\<rparr>],
    lastUpdateRef = 1700000000600, lastMessageAtRef = 1700000000000,
    lastMessageEmotionRef = Some Neutral, pendingEmotionRef = Some Excited,
    messageTimerRef = Some 1700000005000, generated = [(1700000000000, Neutral)]\<rparr>"
  by (simp add: tracker_loaded_eq handleRealtimeUpdate_def UPDATE_THROTTLE_MS_def Let_def
      spread_def override_def wire_data_def example_token_def gt0_def le0_def
      getEmotionFromShortMove_def shouldTriggerMessage_def scheduleMessage_def)

text \<open>
  C9. An update that arrives less than 500 ms after the last accepted one is dropped:
  the whole state (token data, counters, refs, pending timer) is left as it was, so
  nothing is queued or replayed. An update arriving 500 ms or more after the last
  accepted one is accepted and applied: with a prior token state its fields override
  those of the state and the market cap is recomputed when price and supply are
  positive (with none, it becomes the state if it has an address and a supply). An
  update that follows an accepted one by less than 500 ms (for instance 100 ms) is
  dropped: of the two only the first is applied.
\<close>

theorem C9_debounce_drops:
  "(now - lastUpdateRef s < 500 \<longrightarrow> handleRealtimeUpdate now u s = s) \<and>
   (500 \<le> now - lastUpdateRef s \<and> 0 \<le> gap \<and> gap < 500 \<longrightarrow>
      lastUpdateRef (handleRealtimeUpdate now u s) = now \<and>
      updateCount (handleRealtimeUpdate now u s) = updateCount s + 1 \<and>
      tokenData (handleRealtimeUpdate now u s) =
        (case tokenData s of
           None \<Rightarrow> if truthy (td_address u) \<and> td_supply u \<noteq> None then Some u else None
         | Some prev \<Rightarrow>
             Some (if gt0 (td_price (spread prev u)) \<and> gt0 (td_supply (spread prev u))
                   then (spread prev u)\<lparr>td_marketCap :=
                          Some (the (td_price (spread prev u)) * the (td_supply (spread prev u)))\<rparr>
                   else spread prev u)) \<and>
      handleRealtimeUpdate (now + gap) u' (handleRealtimeUpdate now u s) =
        handleRealtimeUpdate now u s)"
proof (intro conjI impI)
  assume "now - lastUpdateRef s < 500"
  then show "handleRealtimeUpdate now u s = s"
    by (simp add: handleRealtimeUpdate_def UPDATE_THROTTLE_MS_def)
next
  assume h: "500 \<le> now - lastUpdateRef s \<and> 0 \<le> gap \<and> gap < 500"
  then have acc: "UPDATE_THROTTLE_MS \<le> now - lastUpdateRef s"
    by (simp add: UPDATE_THROTTLE_MS_def)
  from acc show last: "lastUpdateRef (handleRealtimeUpdate now u s) = now"
    by (rule handleRealtimeUpdate_accepted)
  from acc show "updateCount (handleRealtimeUpdate now u s) = updateCount s + 1"
    by (rule handleRealtimeUpdate_accepted)
  from acc show "tokenData (handleRealtimeUpdate now u s) =
        (case tokenData s of
           None \<Rightarrow> if truthy (td_address u) \<and> td_supply u \<noteq> None then Some u else None
         | Some prev \<Rightarrow>
             Some (if gt0 (td_price (spread prev u)) \<and> gt0 (td_supply (spread prev u))
                   then (spread prev u)\<lparr>td_marketCap :=
                          Some (the (td_price (spread prev u)) * the (td_supply (spread prev u)))\<rparr>
                   else spread prev u))"
    by (rule handleRealtimeUpdate_tokenData)
  from h have "now + gap - lastUpdateRef (handleRealtimeUpdate now u s) < UPDATE_THROTTLE_MS"
    by (simp add: last UPDATE_THROTTLE_MS_def)
  then show "handleRealtimeUpdate (now + gap) u' (handleRealtimeUpdate now u s) =
        handleRealtimeUpdate now u s"
    by (simp add: handleRealtimeUpdate_def [of "now + gap"])
qed

theorem C9_debounce_drops_witness:
  "tokenData tracker_loaded = Some example_token \<and>
   500 \<le> 1700000000600 - lastUpdateRef tracker_loaded \<and>
   handleRealtimeUpdate (1700000000600 + 100)
     (wire_data \<lparr>u_supply = 1000, u_decimals = 9, u_price = 4, u_marketCap = 4000,
        u_change24h = 1, u_volume24h = 3, u_timestamp = 1700000000650\<rparr>)
     (handleRealtimeUpdate 1700000000600
        (wire_data \<lparr>u_supply = 1000, u_decimals = 9, u_price = 3, u_marketCap = 3000,
           u_change24h = 1, u_volume24h = 3, u_timestamp = 1700000000550\<rparr>)
        tracker_loaded) =
   \<lparr>tokenData = Some (example_token\<lparr>td_price := Some 3, td_marketCap := Some 3000,
        td_timestamp := Some 1700000000550\<rparr>),
    emotion = Excited, updateCount = 1,
    chartData = [\<lparr>cp_timestamp = 1700000000000, cp_price = 2, cp_marketCap = Some 2000\<rparr>,
                 \<lparr>cp_timestamp = 1700000000600, cp_price = 3, cp_marketCap = Some 3000\<rparr>],
    lastUpdateRef = 1700000000600, lastMessageAtRef = 1700000000000,
    lastMessageEmotionRef = Some Neutral, pendingEmotionRef = Some Excited,
    messageTimerRef = Some 1700000005000, generated = [(1700000000000, Neutral)]\<rparr>"
proof -
  let ?u1 = "wire_data \<lparr>u_supply = 1000, u_decimals = 9, u_price = 3, u_marketCap = 3000,
              u_change24h = 1, u_volume24h = 3, u_timestamp = 1700000000550\<rparr>"
  let ?u2 = "wire_data \<lparr>u_supply = 1000, u_decimals = 9, u_price = 4, u_marketCap = 4000,
           u_change24h = 1, u_volume24h = 3, u_timestamp = 1700000000650\<rparr>"
  have loaded: "tokenData tracker_loaded = Some example_token"
    by (simp add: tracker_loaded_eq)
  have h: "500 \<le> 1700000000600 - lastUpdateRef tracker_loaded"
    by (simp add: tracker_loaded_eq)
  from h C9_debounce_drops [where now = 1700000000600 and gap = 100 and s = tracker_loaded
      and u = ?u1 and u' = ?u2]
  have "handleRealtimeUpdate (1700000000600 + 100) ?u2
          (handleRealtimeUpdate 1700000000600 ?u1 tracker_loaded) =
        handleRealtimeUpdate 1700000000600 ?u1 tracker_loaded"
    by simp
  with loaded h show ?thesis
    by (simp only: first_update_applied)
qed


lemma handleRealtimeUpdate_no_prev:
  "tokenData s = None \<Longrightarrow>
     tokenData (handleRealtimeUpdate now u s) =
       (if UPDATE_THROTTLE_MS \<le> now - lastUpdateRef s \<and> truthy (td_address u) \<and>
           td_supply u \<noteq> None
        then Some u else None)"
  by (simp add: handleRealtimeUpdate_def Let_def split: option.splits)

lemma onmessage_no_prev:
  "tokenData s = None \<Longrightarrow> tokenData (onmessage now event s) = None"
  by (cases event)
     (simp_all add: onmessage_def handleRealtimeUpdate_no_prev wire_data_def truthy_def)

lemma onmessage_run_no_prev:
  "tokenData s = None \<Longrightarrow>
     tokenData (foldl (\<lambda>s (now, event). onmessage now event s) s events) = None"
proof (induction events arbitrary: s)
  case Nil
  then show ?case by simp
next
  case (Cons e events)
  obtain now event where e: "e = (now, event)" by (cases e)
  from Cons.prems have "tokenData (onmessage now event s) = None"
    by (rule onmessage_no_prev)
  then have "tokenData (foldl (\<lambda>s (now, event). onmessage now event s)
      (onmessage now event s) events) = None"
    by (rule Cons.IH)
  then show ?case by (simp add: e)
qed

text \<open>
  C10. With no prior token state, an update creates the initial state only if it carries
  a (non-empty) address and a defined supply. The data of the route's \<open>update\<close> events
  has no address, so every event of the stream, and every sequence of them, delivered
  while the token state is null leaves it null.
\<close>

theorem C10_no_state_from_stream:
  assumes "tokenData s = None"
  shows "(tokenData (handleRealtimeUpdate now u s) \<noteq> None \<longrightarrow>
            truthy (td_address u) \<and> td_supply u \<noteq> None) \<and>
         td_address (wire_data d) = None \<and>
         tokenData (onmessage now event s) = None \<and>
         tokenData (foldl (\<lambda>s (now, event). onmessage now event s) s events) = None"
  using assms
  by (simp add: handleRealtimeUpdate_no_prev onmessage_no_prev onmessage_run_no_prev
      wire_data_def)

theorem C10_no_state_from_stream_witness:
  "tokenData tracker_mounted = None \<and>
   tokenData (foldl (\<lambda>s (now, event). onmessage now event s) tracker_mounted
     [(1700000000000, Connected ''So11'' ''Connected to Jupiter token stream''),
      (1700000000400, Update ''So11'' \<lparr>u_supply = 1000, u_decimals = 9, u_price = 2,
         u_marketCap = 2000, u_change24h = 1, u_volume24h = 3,
         u_timestamp = 1700000000300\<rparr>),
      (1700000005400, Update ''So11'' \<lparr>u_supply = 1000, u_decimals = 9, u_price = 3,
         u_marketCap = 3000, u_change24h = 1, u_volume24h = 3,
         u_timestamp = 1700000005300\<rparr>)]) = None"
proof -
  have "tokenData tracker_mounted = None"
    by (simp add: tracker_mounted_def)
  then show ?thesis
    using C10_no_state_from_stream [of tracker_mounted] by blast
qed


subsection \<open>The message scheduler\<close>

lemmas sched_eval =
  schedule_all_def scheduleMessage_def messageTimer_fires_def tracker_mounted_def Let_def

lemma schedule_all_snoc:
  "schedule_all (calls @ [(now, e)]) s = scheduleMessage now e (schedule_all calls s)"
  by (simp add: schedule_all_def)

lemma schedule_all_Cons:
  "schedule_all ((now, e) # calls) s = schedule_all calls (scheduleMessage now e s)"
  by (simp add: schedule_all_def)

lemma scheduleMessage_immediate:
  assumes "messageTimerRef s = None" and "5000 \<le> now - lastMessageAtRef s"
    and "lastMessageEmotionRef s \<noteq> Some e"
  shows "scheduleMessage now e s =
           s\<lparr>pendingEmotionRef := Some e, lastMessageAtRef := now,
             lastMessageEmotionRef := Some e, generated := generated s @ [(now, e)]\<rparr>"
  using assms by (simp add: scheduleMessage_def Let_def)

lemma scheduleMessage_arms:
  assumes "messageTimerRef s = None" and "now - lastMessageAtRef s < 5000"
    and "lastMessageEmotionRef s \<noteq> Some e"
  shows "scheduleMessage now e s =
           s\<lparr>pendingEmotionRef := Some e, messageTimerRef := Some (lastMessageAtRef s + 5000)\<rparr>"
  using assms by (simp add: scheduleMessage_def Let_def max_def)

lemma scheduleMessage_pending:
  assumes "messageTimerRef s = Some due" and "lastMessageEmotionRef s \<noteq> Some e"
  shows "scheduleMessage now e s = s\<lparr>pendingEmotionRef := Some e\<rparr>"
  using assms by (simp add: scheduleMessage_def Let_def)

lemma schedule_all_pending:
  assumes "messageTimerRef s = Some due" and "calls \<noteq> []"
    and "\<forall>(t, e) \<in> set calls. lastMessageEmotionRef s \<noteq> Some e"
  shows "schedule_all calls s = s\<lparr>pendingEmotionRef := Some (snd (last calls))\<rparr>"
  using assms(2,3)
proof (induction calls rule: rev_induct)
  case Nil
  then show ?case by simp
next
  case (snoc c calls)
  obtain now e where c: "c = (now, e)" by (cases c)
  from snoc.prems have e: "lastMessageEmotionRef s \<noteq> Some e"
    by (simp add: c)
  show ?case
  proof (cases "calls = []")
    case True
    with assms(1) e show ?thesis
      by (simp add: c schedule_all_def scheduleMessage_pending [of s due])
  next
    case False
    with snoc have IH: "schedule_all calls s = s\<lparr>pendingEmotionRef := Some (snd (last calls))\<rparr>"
      by simp
    have "scheduleMessage now e (s\<lparr>pendingEmotionRef := Some (snd (last calls))\<rparr>) =
            s\<lparr>pendingEmotionRef := Some (snd (last calls))\<rparr>\<lparr>pendingEmotionRef := Some e\<rparr>"
      using assms(1) e by (intro scheduleMessage_pending [of _ due]) simp_all
    then show ?thesis
      by (simp add: c schedule_all_snoc IH)
  qed
qed

lemma schedule_all_burst:
  assumes idle: "messageTimerRef s = None" and burst: "calls \<noteq> []"
    and window: "\<forall>(t, e) \<in> set calls.
                   t - lastMessageAtRef s < 5000 \<and> lastMessageEmotionRef s \<noteq> Some e"
  shows "schedule_all calls s =
           s\<lparr>pendingEmotionRef := Some (snd (last calls)),
             messageTimerRef := Some (lastMessageAtRef s + 5000)\<rparr>"
proof -
  from burst obtain c rest where calls: "calls = c # rest" by (cases calls) auto
  obtain now e where c: "c = (now, e)" by (cases c)
  from window have first: "now - lastMessageAtRef s < 5000" "lastMessageEmotionRef s \<noteq> Some e"
    by (simp_all add: calls c)
  let ?s1 = "s\<lparr>pendingEmotionRef := Some e, messageTimerRef := Some (lastMessageAtRef s + 5000)\<rparr>"
  from idle first have s1: "scheduleMessage now e s = ?s1"
    by (rule scheduleMessage_arms)
  show ?thesis
  proof (cases "rest = []")
    case True
    with s1 show ?thesis
      by (simp add: calls c schedule_all_def)
  next
    case False
    have "messageTimerRef ?s1 = Some (lastMessageAtRef s + 5000)" by simp
    moreover note False
    moreover from window have "\<forall>(t, e) \<in> set rest. lastMessageEmotionRef ?s1 \<noteq> Some e"
      by (auto simp add: calls)
    ultimately have "schedule_all rest ?s1 = ?s1\<lparr>pendingEmotionRef := Some (snd (last rest))\<rparr>"
      by (rule schedule_all_pending)
    with False s1 show ?thesis
      by (simp add: calls c schedule_all_Cons)
  qed
qed

text \<open>
  C3, as stated, lets a burst of emotion changes inside one 5-second window produce at
  most one message, carrying the last emotion of the burst. When the burst starts 5 s or
  more after the previous message, its first change is announced at once and the rest is
  announced by the timer: two changes 1 s apart give two messages, and the one announced
  inside the window carries the first emotion.
\<close>

theorem C3_leading_message_counterexample:
  "generated (messageTimer_fires 1700000005000
      (schedule_all [(1700000000000, Happy), (1700000001000, Sad)] tracker_mounted)) =
     [(1700000000000, Happy), (1700000005000, Sad)]"
  by (simp add: sched_eval)

text \<open>
  C3 (amended). A change to an emotion other than the last announced one, arriving 5 s
  or more after the last message with no timer pending, is announced at once. A burst of
  one or more changes that all arrive less than 5 s after the last message, each to an
  emotion other than the last announced one, announces nothing while it lasts and arms
  one timer, due 5 s after the last message; when the timer fires, exactly one message
  is announced, and it carries the last emotion of the burst. Messages are therefore at
  least 5 s apart.
\<close>

theorem C3_burst_coalesced:
  "(messageTimerRef s = None \<and> 5000 \<le> now - lastMessageAtRef s \<and>
    lastMessageEmotionRef s \<noteq> Some e \<longrightarrow>
      generated (scheduleMessage now e s) = generated s @ [(now, e)] \<and>
      lastMessageAtRef (scheduleMessage now e s) = now \<and>
      lastMessageEmotionRef (scheduleMessage now e s) = Some e \<and>
      messageTimerRef (scheduleMessage now e s) = None) \<and>
   (messageTimerRef s = None \<and> calls \<noteq> [] \<and>
    (\<forall>(t, e) \<in> set calls.
        t - lastMessageAtRef s < 5000 \<and> lastMessageEmotionRef s \<noteq> Some e) \<longrightarrow>
      generated (schedule_all calls s) = generated s \<and>
      messageTimerRef (schedule_all calls s) = Some (lastMessageAtRef s + 5000) \<and>
      generated (messageTimer_fires tf (schedule_all calls s)) =
        generated s @ [(tf, snd (last calls))] \<and>
      lastMessageAtRef (messageTimer_fires tf (schedule_all calls s)) = tf \<and>
      lastMessageEmotionRef (messageTimer_fires tf (schedule_all calls s)) =
        Some (snd (last calls)) \<and>
      messageTimerRef (messageTimer_fires tf (schedule_all calls s)) = None)"
proof (intro conjI impI)
  assume h: "messageTimerRef s = None \<and> 5000 \<le> now - lastMessageAtRef s \<and>
    lastMessageEmotionRef s \<noteq> Some e"
  then have eq: "scheduleMessage now e s =
           s\<lparr>pendingEmotionRef := Some e, lastMessageAtRef := now,
             lastMessageEmotionRef := Some e, generated := generated s @ [(now, e)]\<rparr>"
    by (simp add: scheduleMessage_immediate)
  show "generated (scheduleMessage now e s) = generated s @ [(now, e)]"
    by (simp add: eq)
  show "lastMessageAtRef (scheduleMessage now e s) = now"
    by (simp add: eq)
  show "lastMessageEmotionRef (scheduleMessage now e s) = Some e"
    by (simp add: eq)
  from h show "messageTimerRef (scheduleMessage now e s) = None"
    by (simp add: eq)
next
  assume h: "messageTimerRef s = None \<and> calls \<noteq> [] \<and>
    (\<forall>(t, e) \<in> set calls.
        t - lastMessageAtRef s < 5000 \<and> lastMessageEmotionRef s \<noteq> Some e)"
  then have eq: "schedule_all calls s =
           s\<lparr>pendingEmotionRef := Some (snd (last calls)),
             messageTimerRef := Some (lastMessageAtRef s + 5000)\<rparr>"
    by (intro schedule_all_burst) simp_all
  from h have "last calls \<in> set calls" by simp
  with h have ne: "lastMessageEmotionRef s \<noteq> Some (snd (last calls))"
    by (cases "last calls") auto
  show "generated (schedule_all calls s) = generated s"
    by (simp add: eq)
  show "messageTimerRef (schedule_all calls s) = Some (lastMessageAtRef s + 5000)"
    by (simp add: eq)
  from ne show "generated (messageTimer_fires tf (schedule_all calls s)) =
        generated s @ [(tf, snd (last calls))]"
    by (auto simp add: eq messageTimer_fires_def)
  from ne show "lastMessageAtRef (messageTimer_fires tf (schedule_all calls s)) = tf"
    by (auto simp add: eq messageTimer_fires_def)
  from ne show "lastMessageEmotionRef (messageTimer_fires tf (schedule_all calls s)) =
        Some (snd (last calls))"
    by (auto simp add: eq messageTimer_fires_def)
  from ne show "messageTimerRef (messageTimer_fires tf (schedule_all calls s)) = None"
    by (auto simp add: eq messageTimer_fires_def)
qed

theorem C3_burst_coalesced_witness:
  "messageTimerRef (scheduleMessage 1700000000000 Happy tracker_mounted) = None \<and>
   lastMessageAtRef (scheduleMessage 1700000000000 Happy tracker_mounted) = 1700000000000 \<and>
   generated (messageTimer_fires 1700000005000
      (schedule_all [(1700000001000, Sad), (1700000002000, Excited)]
         (scheduleMessage 1700000000000 Happy tracker_mounted))) =
     [(1700000000000, Happy), (1700000005000, Excited)]"
proof -
  let ?s = "scheduleMessage 1700000000000 Happy tracker_mounted"
  have idle: "messageTimerRef ?s = None"
    by (simp add: sched_eval)
  have at: "lastMessageAtRef ?s = 1700000000000"
    by (simp add: sched_eval)
  have em: "lastMessageEmotionRef ?s = Some Happy"
    by (simp add: sched_eval)
  have gen: "generated ?s = [(1700000000000, Happy)]"
    by (simp add: sched_eval)
  from idle at em gen
    C3_burst_coalesced [where s = ?s and tf = 1700000005000
      and calls = "[(1700000001000, Sad), (1700000002000, Excited)]"]
  have "generated (messageTimer_fires 1700000005000
      (schedule_all [(1700000001000, Sad), (1700000002000, Excited)] ?s)) =
     [(1700000000000, Happy), (1700000005000, Excited)]"
    by simp
  with idle at show ?thesis by simp
qed


text \<open>
  The amended statement is silent on a burst that returns to the last announced emotion.
  There \<^verbatim>\<open>scheduleMessage\<close> returns at its first test, before it records the new emotion
  as pending, so the timer announces the emotion that was pending before the return:
\<close>

lemma pending_survives_revert:
  "generated (messageTimer_fires 1700000005000
      (schedule_all [(1700000000000, Happy), (1700000001000, Sad), (1700000002000, Happy)]
         tracker_mounted)) =
     [(1700000000000, Happy), (1700000005000, Sad)]"
  by (simp add: sched_eval)

end
